theory Spec2Isabelle
  imports Main
begin

section \<open>Gmail assistant: authentication, search, retrieval and export\<close>

text \<open>
  A shallow embedding of \<^verbatim>\<open>gmail_auth.py\<close>, \<^verbatim>\<open>gmail_search.py\<close> and
  \<^verbatim>\<open>gmail_retriever.py\<close>.

  Conventions.
  \<^item> A Python \<^verbatim>\<open>str\<close> is a \<open>string\<close>; one \<open>char\<close> stands for one code point, so
    \<open>length\<close> is Python's \<^verbatim>\<open>len\<close>.
  \<^item> A JSON object of the Gmail API is a record or datatype with one optional field per
    key the program reads; \<open>None\<close> means that the key is absent.
  \<^item> Record fields are global constants, so the keys of each dictionary carry a prefix:
    \<open>m_\<close> for a full message, \<open>md_\<close> for the metadata dictionary, \<open>si_\<close> for a search
    result, \<open>mr_\<close> for a metadata response, \<open>sm_\<close> for the export summary.
  \<^item> An exception is a value of type \<open>error\<close>; a function that can raise returns
    \<open>error + 'a\<close>.
  \<^item> The filesystem, the printed lines and the calls that leave the process are fields
    of the record \<open>world\<close>, passed through every effectful function.
  \<^item> What the libraries and the remote service answer is not part of the repository; it
    is the record \<open>env\<close>, a parameter of every function that calls them.
\<close>

subsection \<open>Messages of the Gmail API\<close>

record part_body =
  body_data :: "string option"
  body_size :: "int option"

datatype part = Part
  (filename: "string option")
  (mimeType: "string option")
  (body: "part_body option")
  (headers: "(string \<times> string) list option")
  (parts: "part list option")

record message =
  m_id :: "string option"
  m_threadId :: "string option"
  m_labelIds :: "string list option"
  m_snippet :: "string option"
  m_payload :: "part option"
  m_other_keys :: "string list"

text \<open>
  \<open>m_other_keys\<close> are the names of the keys of the dictionary that the program never
  reads (\<^verbatim>\<open>historyId\<close>, \<^verbatim>\<open>internalDate\<close>, \<^verbatim>\<open>sizeEstimate\<close>); they matter for
  the truth value of the dictionary only.

  The answer to a \<^verbatim>\<open>format='metadata'\<close> request, and one entry of a list answer.
\<close>

record metadata_response =
  mr_threadId :: "string option"
  mr_snippet :: "string option"
  mr_labelIds :: "string list option"
  mr_payload :: "part option"

datatype msg_ref = MsgRef (ref_id: "string option")

subsection \<open>Credentials, service handle, errors\<close>

record creds =
  valid :: bool
  expired :: bool
  refresh_token :: "string option"
  access_token :: string

datatype service = Service creds

datatype error =
    FileNotFoundError string
  | RefreshError string
  | KeyError string
  | OSError string
  | LibraryError string

text \<open>\<^verbatim>\<open>str(e)\<close>, as the f-strings print it; a \<^verbatim>\<open>KeyError\<close> prints its key quoted.\<close>

fun str_error :: "error \<Rightarrow> string" where
  "str_error (FileNotFoundError s) = s"
| "str_error (RefreshError s) = s"
| "str_error (KeyError k) = [CHR 0x27] @ k @ [CHR 0x27]"
| "str_error (OSError s) = s"
| "str_error (LibraryError s) = s"

subsection \<open>Derived dictionaries\<close>

record attachment =
  att_filename :: string
  att_mimeType :: string
  att_size :: int

record message_metadata =
  md_id :: string
  md_thread_id :: string
  md_labels :: "string list"
  md_snippet :: string
  md_from :: string
  md_to :: string
  md_cc :: string
  md_bcc :: string
  md_subject :: string
  md_date :: "string option"
  md_date_raw :: string
  md_attachments :: "attachment list"
  md_attachment_count :: nat

record search_item =
  si_id :: string
  si_thread_id :: string
  si_snippet :: string
  si_from :: string
  si_to :: string
  si_subject :: string
  si_date :: string
  si_labels :: "string list"

text \<open>
  The summary of an export is a dictionary whose key set depends on the path taken, so
  the two keys that one path leaves out are optional.
\<close>

record summary =
  sm_search_query :: "string option"
  sm_message_count :: nat
  sm_files_created :: "string list"
  sm_timestamp :: "string option"

subsection \<open>The world and the environment\<close>

datatype chunk =
    JsonDump "message list"
  | CsvHeader "string list"
  | CsvRow message_metadata string
  | TextBlock string

datatype file_content =
    ClientSecrets
  | Pickle creds
  | Written "chunk list"

datatype net_call =
    NetRefresh creds
  | NetOAuthFlow string
  | NetBuild creds
  | NetList string int
  | NetGetMetadata string
  | NetGetFull string

record world =
  files :: "string \<rightharpoonup> file_content"
  printed :: "string list"
  network :: "net_call list"

text \<open>
  \<open>urlsafe_b64decode\<close> is \<^verbatim>\<open>base64.urlsafe_b64decode(data)\<close>: its result is a byte
  string, one \<open>char\<close> per byte, and \<open>None\<close> is a raised exception (wrong padding, for
  one). \<open>decode_utf8_replace\<close> is \<^verbatim>\<open>bytes.decode('utf-8', errors='replace')\<close>: with
  the \<^verbatim>\<open>replace\<close> handler the call returns text for every byte string, a byte that
  cannot be decoded becoming the replacement character, so it has no failure result.
  \<open>strptime_isoformat\<close> is
  \<^verbatim>\<open>datetime.strptime(s, '%a, %d %b %Y %H:%M:%S %z').isoformat()\<close>; \<open>None\<close> is a
  raised exception. \<open>open_error f\<close> is the message of the error that
  \<^verbatim>\<open>open(f, 'w')\<close> raises, \<open>None\<close> when the file opens. \<open>now\<close> is
  \<^verbatim>\<open>datetime.now().strftime("%Y%m%d_%H%M%S")\<close>.
\<close>

record env =
  urlsafe_b64decode :: "string \<Rightarrow> string option"
  decode_utf8_replace :: "string \<Rightarrow> string"
  strptime_isoformat :: "string \<Rightarrow> string option"
  open_error :: "string \<Rightarrow> string option"
  now :: string
  refresh :: "creds \<Rightarrow> error + creds"
  oauth_flow :: "string \<Rightarrow> error + creds"
  build :: "creds \<Rightarrow> error + service"
  list_messages :: "string \<Rightarrow> int \<Rightarrow> error + msg_ref list option"
  get_metadata :: "string \<Rightarrow> error + metadata_response"
  get_full :: "string \<Rightarrow> error + message"

definition print :: "string \<Rightarrow> world \<Rightarrow> world" where
  "print line w = w\<lparr>printed := printed w @ [line]\<rparr>"

definition call :: "net_call \<Rightarrow> world \<Rightarrow> world" where
  "call c w = w\<lparr>network := network w @ [c]\<rparr>"

definition write_file :: "string \<Rightarrow> file_content \<Rightarrow> world \<Rightarrow> world" where
  "write_file f c w = w\<lparr>files := (files w)(f \<mapsto> c)\<rparr>"

text \<open>\<^verbatim>\<open>str(n)\<close> for the integers the f-strings print.\<close>

fun str_nat :: "nat \<Rightarrow> string" where
  "str_nat n = (if n < 10 then [char_of (48 + n)] else str_nat (n div 10) @ [char_of (48 + n mod 10)])"

declare str_nat.simps [simp del]

definition str_int :: "int \<Rightarrow> string" where
  "str_int i = (if i < 0 then CHR ''-'' # str_nat (nat (- i)) else str_nat (nat i))"

subsection \<open>\<^verbatim>\<open>extract_email_body\<close>\<close>

definition decode_base64 :: "env \<Rightarrow> string \<Rightarrow> string" where
  "decode_base64 env data =
     (case urlsafe_b64decode env data of
        Some raw \<Rightarrow> decode_utf8_replace env raw
      | None \<Rightarrow> [])"

text \<open>
  \<^verbatim>\<open>re.sub(r'<[^>]+>', '', s)\<close>. At a \<open><\<close> the pattern matches when at least one
  character other than \<open>>\<close> follows and a \<open>>\<close> comes after them; the match ends at
  the first \<open>>\<close>. \<open>tag_end\<close> returns what follows the match.
\<close>

definition tag_end :: "string \<Rightarrow> string option" where
  "tag_end cs =
     (let inner = takeWhile (\<lambda>c. c \<noteq> CHR ''>'') cs;
          rest = dropWhile (\<lambda>c. c \<noteq> CHR ''>'') cs
      in if inner \<noteq> [] \<and> rest \<noteq> [] then Some (tl rest) else None)"

function re_sub_tags :: "string \<Rightarrow> string" where
  "re_sub_tags [] = []"
| "re_sub_tags (c # cs) =
     (if c = CHR ''<'' then
        (case tag_end cs of Some rest \<Rightarrow> re_sub_tags rest | None \<Rightarrow> c # re_sub_tags cs)
      else c # re_sub_tags cs)"
  by pat_completeness auto
termination
proof (relation "measure length")
  show "wf (measure length)" by simp
next
  fix c :: char and cs rest :: string
  assume "tag_end cs = Some rest"
  moreover have "length (tl (dropWhile (\<lambda>c. c \<noteq> CHR ''>'') cs)) \<le> length cs"
    using length_dropWhile_le [of "\<lambda>c. c \<noteq> CHR ''>''" cs] by simp
  ultimately have "length rest \<le> length cs"
    by (auto simp: tag_end_def Let_def split: if_splits)
  then show "(rest, c # cs) \<in> measure length" by simp
qed simp_all

text \<open>
  The text a part contributes by itself: lines 127 to 135. Then the loop over
  \<^verbatim>\<open>payload['parts']\<close> appends what each child yields.
\<close>

definition own_text :: "env \<Rightarrow> part \<Rightarrow> string" where
  "own_text env p =
     (case body p of None \<Rightarrow> []
      | Some b \<Rightarrow>
         (case body_data b of None \<Rightarrow> []
          | Some d \<Rightarrow>
             if mimeType p = Some ''text/plain'' then decode_base64 env d
             else if mimeType p = Some ''text/html'' then re_sub_tags (decode_base64 env d)
             else []))"

fun extract_from_payload :: "env \<Rightarrow> part \<Rightarrow> string" where
  "extract_from_payload env (Part fn mt bd hs ps) =
     (case ps of
        None \<Rightarrow> own_text env (Part fn mt bd hs ps)
      | Some l \<Rightarrow>
          fold (\<lambda>p body_text. body_text @ extract_from_payload env p) l
            (own_text env (Part fn mt bd hs ps)))"

definition extract_email_body :: "env \<Rightarrow> message \<Rightarrow> string" where
  "extract_email_body env msg =
     (case m_payload msg of Some p \<Rightarrow> extract_from_payload env p | None \<Rightarrow> [])"

subsection \<open>\<^verbatim>\<open>extract_message_metadata\<close>\<close>

definition header_dict :: "(string \<times> string) list \<Rightarrow> (string \<rightharpoonup> string)" where
  "header_dict hs = fold (\<lambda>(n, v) d. d(n \<mapsto> v)) hs Map.empty"

definition get_or :: "('k \<rightharpoonup> 'v) \<Rightarrow> 'k \<Rightarrow> 'v \<Rightarrow> 'v" where
  "get_or d k dflt = (case d k of Some v \<Rightarrow> v | None \<Rightarrow> dflt)"

definition descriptor :: "string \<Rightarrow> part \<Rightarrow> attachment" where
  "descriptor f p =
     \<lparr>att_filename = f,
      att_mimeType = (case mimeType p of Some t \<Rightarrow> t | None \<Rightarrow> []),
      att_size = (case body p of None \<Rightarrow> 0
                  | Some b \<Rightarrow> (case body_size b of Some n \<Rightarrow> n | None \<Rightarrow> 0))\<rparr>"

text \<open>Lines 168 to 173: the attachment list after the test on one element of a part list.\<close>

definition record_part :: "part \<Rightarrow> attachment list \<Rightarrow> attachment list" where
  "record_part p attachments =
     (case filename p of
        Some f \<Rightarrow> if f \<noteq> [] then attachments @ [descriptor f p] else attachments
      | None \<Rightarrow> attachments)"

fun find_attachments :: "part \<Rightarrow> attachment list \<Rightarrow> attachment list" where
  "find_attachments (Part fn mt bd hs ps) attachments =
     (case ps of
        None \<Rightarrow> attachments
      | Some l \<Rightarrow> fold (\<lambda>p a. find_attachments p (record_part p a)) l attachments)"

text \<open>\<^verbatim>\<open>date_str.split(' (')[0]\<close>: what precedes the first occurrence of \<open>'' (''\<close>.\<close>

fun split_first :: "string \<Rightarrow> string" where
  "split_first (a # b # cs) =
     (if a = CHR '' '' \<and> b = CHR ''('' then [] else a # split_first (b # cs))"
| "split_first cs = cs"

text \<open>\<^verbatim>\<open>str.isspace\<close> on the code points below 256, and \<^verbatim>\<open>str.strip()\<close>.\<close>

definition py_isspace :: "char \<Rightarrow> bool" where
  "py_isspace c = ((of_char c :: nat) \<in> {9, 10, 11, 12, 13, 28, 29, 30, 31, 32, 133, 160})"

definition strip :: "string \<Rightarrow> string" where
  "strip s = rev (dropWhile py_isspace (rev (dropWhile py_isspace s)))"

text \<open>Lines 179 to 189.\<close>

definition parsed_date :: "env \<Rightarrow> string \<Rightarrow> string option" where
  "parsed_date env date_str =
     (if date_str \<noteq> [] then
        (case strptime_isoformat env (strip (split_first date_str)) of
           Some stamp \<Rightarrow> Some stamp
         | None \<Rightarrow> Some date_str)
      else None)"

definition message_headers :: "message \<Rightarrow> (string \<times> string) list" where
  "message_headers msg =
     (case m_payload msg of None \<Rightarrow> []
      | Some p \<Rightarrow> (case headers p of Some hs \<Rightarrow> hs | None \<Rightarrow> []))"

definition message_attachments :: "message \<Rightarrow> attachment list" where
  "message_attachments msg =
     (case m_payload msg of None \<Rightarrow> [] | Some p \<Rightarrow> find_attachments p [])"

definition extract_message_metadata :: "env \<Rightarrow> message \<Rightarrow> error + message_metadata" where
  "extract_message_metadata env msg =
     (let hdrs = header_dict (message_headers msg);
          attachments = message_attachments msg;
          date_str = get_or hdrs ''Date'' []
      in case m_id msg of
           None \<Rightarrow> Inl (KeyError ''id'')
         | Some i \<Rightarrow>
            (case m_threadId msg of
               None \<Rightarrow> Inl (KeyError ''threadId'')
             | Some t \<Rightarrow>
                 Inr \<lparr>md_id = i,
                      md_thread_id = t,
                      md_labels = (case m_labelIds msg of Some ls \<Rightarrow> ls | None \<Rightarrow> []),
                      md_snippet = (case m_snippet msg of Some s \<Rightarrow> s | None \<Rightarrow> []),
                      md_from = get_or hdrs ''From'' [],
                      md_to = get_or hdrs ''To'' [],
                      md_cc = get_or hdrs ''Cc'' [],
                      md_bcc = get_or hdrs ''Bcc'' [],
                      md_subject = get_or hdrs ''Subject'' [],
                      md_date = parsed_date env date_str,
                      md_date_raw = date_str,
                      md_attachments = attachments,
                      md_attachment_count = length attachments\<rparr>))"

subsection \<open>Writing the export files\<close>

definition nl :: string where
  "nl = [CHR 0x0A]"

text \<open>
  \<^verbatim>\<open>open(filename, 'w')\<close> creates the file or empties it; every later write appends to
  what the open file holds.
\<close>

definition append_file :: "string \<Rightarrow> chunk \<Rightarrow> world \<Rightarrow> world" where
  "append_file f c w =
     (case files w f of
        Some (Written cs) \<Rightarrow> write_file f (Written (cs @ [c])) w
      | _ \<Rightarrow> write_file f (Written [c]) w)"

definition save_messages_json :: "env \<Rightarrow> message list \<Rightarrow> string \<Rightarrow> world \<Rightarrow> world" where
  "save_messages_json env messages fname w =
     (case open_error env fname of
        Some e \<Rightarrow> print (''Error saving to JSON: '' @ e) w
      | None \<Rightarrow>
          print (''Saved '' @ str_nat (length messages) @ '' messages to '' @ fname)
            (append_file fname (JsonDump messages) (write_file fname (Written []) w)))"

definition metadata_keys :: "string list" where
  "metadata_keys = [''id'', ''thread_id'', ''labels'', ''snippet'', ''from'', ''to'', ''cc'',
     ''bcc'', ''subject'', ''date'', ''date_raw'', ''attachments'', ''attachment_count'']"

text \<open>Line 247: \<^verbatim>\<open>body[:200] + '...' if len(body) > 200 else body\<close>.\<close>

definition body_preview :: "string \<Rightarrow> string" where
  "body_preview txt = (if length txt > 200 then take 200 txt @ ''...'' else txt)"

text \<open>
  The loop of lines 243 to 248. An exception of \<^verbatim>\<open>extract_message_metadata\<close> leaves
  the loop; the rows written before it stay in the file.
\<close>

fun write_rows :: "env \<Rightarrow> string \<Rightarrow> message list \<Rightarrow> world \<Rightarrow> error option \<times> world" where
  "write_rows env fname [] w = (None, w)"
| "write_rows env fname (msg # rest) w =
     (case extract_message_metadata env msg of
        Inl e \<Rightarrow> (Some e, w)
      | Inr metadata \<Rightarrow>
          write_rows env fname rest
            (append_file fname (CsvRow metadata (body_preview (extract_email_body env msg))) w))"

definition save_messages_csv :: "env \<Rightarrow> message list \<Rightarrow> string \<Rightarrow> world \<Rightarrow> world" where
  "save_messages_csv env messages fname w =
     (case open_error env fname of
        Some e \<Rightarrow> print (''Error saving to CSV: '' @ e) w
      | None \<Rightarrow>
          (let w1 = write_file fname (Written []) w in
           case messages of
             [] \<Rightarrow> print ''No messages to save'' w1
           | first # _ \<Rightarrow>
              (case extract_message_metadata env first of
                 Inl e \<Rightarrow> print (''Error saving to CSV: '' @ str_error e) w1
               | Inr sample_metadata \<Rightarrow>
                  (let fieldnames = metadata_keys @ [''body_preview''];
                       w2 = append_file fname (CsvHeader fieldnames) w1
                   in case write_rows env fname messages w2 of
                        (Some e, w3) \<Rightarrow> print (''Error saving to CSV: '' @ str_error e) w3
                      | (None, w3) \<Rightarrow>
                          print (''Saved '' @ str_nat (length messages) @ '' messages to '' @ fname)
                            w3))))"

definition text_block :: "nat \<Rightarrow> nat \<Rightarrow> message_metadata \<Rightarrow> string \<Rightarrow> string" where
  "text_block i n metadata body_text =
     replicate 60 CHR ''='' @ nl
     @ ''MESSAGE '' @ str_nat i @ '' of '' @ str_nat n @ nl
     @ replicate 60 CHR ''='' @ nl
     @ ''ID: '' @ md_id metadata @ nl
     @ ''From: '' @ md_from metadata @ nl
     @ ''To: '' @ md_to metadata @ nl
     @ ''Subject: '' @ md_subject metadata @ nl
     @ ''Date: '' @ (case md_date metadata of Some d \<Rightarrow> d | None \<Rightarrow> ''None'') @ nl
     @ (if md_attachments metadata \<noteq> []
        then ''Attachments: '' @ str_nat (length (md_attachments metadata)) @ '' files'' @ nl
        else [])
     @ nl @ ''Body:'' @ nl @ replicate 40 CHR ''-'' @ nl
     @ body_text
     @ nl @ nl"

fun write_blocks ::
  "env \<Rightarrow> string \<Rightarrow> nat \<Rightarrow> nat \<Rightarrow> message list \<Rightarrow> world \<Rightarrow> error option \<times> world" where
  "write_blocks env fname n i [] w = (None, w)"
| "write_blocks env fname n i (msg # rest) w =
     (case extract_message_metadata env msg of
        Inl e \<Rightarrow> (Some e, w)
      | Inr metadata \<Rightarrow>
          write_blocks env fname n (i + 1) rest
            (append_file fname
               (TextBlock (text_block i n metadata (extract_email_body env msg))) w))"

definition save_messages_text :: "env \<Rightarrow> message list \<Rightarrow> string \<Rightarrow> world \<Rightarrow> world" where
  "save_messages_text env messages fname w =
     (case open_error env fname of
        Some e \<Rightarrow> print (''Error saving to text: '' @ e) w
      | None \<Rightarrow>
          (case write_blocks env fname (length messages) 1 messages
                  (write_file fname (Written []) w) of
             (Some e, w1) \<Rightarrow> print (''Error saving to text: '' @ str_error e) w1
           | (None, w1) \<Rightarrow>
               print (''Saved '' @ str_nat (length messages) @ '' messages to '' @ fname) w1))"

subsection \<open>\<^verbatim>\<open>GmailAuthenticator\<close>\<close>

record authenticator =
  a_credentials_file :: string
  a_token_file :: string
  a_service :: "service option"

definition not_found_message :: "string \<Rightarrow> string" where
  "not_found_message path =
     ''Credentials file '' @ [CHR 0x27] @ path @ [CHR 0x27] @ '' not found. ''
     @ ''Please download it from Google Cloud Console.''"

text \<open>Lines 55 to 57: \<^verbatim>\<open>pickle.load\<close> raises on a file that holds no pickled object.\<close>

definition load_token :: "authenticator \<Rightarrow> world \<Rightarrow> error + creds option" where
  "load_token a w =
     (case files w (a_token_file a) of
        None \<Rightarrow> Inr None
      | Some (Pickle c) \<Rightarrow> Inr (Some c)
      | Some _ \<Rightarrow> Inl (LibraryError ''UnpicklingError''))"

definition run_oauth_flow :: "env \<Rightarrow> authenticator \<Rightarrow> world \<Rightarrow> (error + creds) \<times> world" where
  "run_oauth_flow env a w =
     (oauth_flow env (a_credentials_file a), call (NetOAuthFlow (a_credentials_file a)) w)"

definition save_token :: "env \<Rightarrow> authenticator \<Rightarrow> creds \<Rightarrow> world \<Rightarrow> error option \<times> world" where
  "save_token env a c w =
     (case open_error env (a_token_file a) of
        Some e \<Rightarrow> (Some (OSError e), w)
      | None \<Rightarrow>
          (None, print (''Token saved to '' @ a_token_file a)
                   (write_file (a_token_file a) (Pickle c) w)))"

text \<open>Line 73, reached with the credentials of either branch unless that branch raised.\<close>

definition then_save ::
  "env \<Rightarrow> authenticator \<Rightarrow> (error + creds) \<times> world \<Rightarrow> (error + creds) \<times> world" where
  "then_save env a rw =
     (case rw of
        (Inl e, w) \<Rightarrow> (Inl e, w)
      | (Inr c, w) \<Rightarrow>
          (case save_token env a c w of
             (Some e, w1) \<Rightarrow> (Inl e, w1)
           | (None, w1) \<Rightarrow> (Inr c, w1)))"

definition truthy :: "string option \<Rightarrow> bool" where
  "truthy s = (s \<noteq> None \<and> s \<noteq> Some [])"

text \<open>Lines 60 to 73.\<close>

definition obtain_creds ::
  "env \<Rightarrow> authenticator \<Rightarrow> creds option \<Rightarrow> world \<Rightarrow> (error + creds) \<times> world" where
  "obtain_creds env a loaded w =
     (let flow = (\<lambda>w0. then_save env a (run_oauth_flow env a
                    (print ''No valid credentials found. Starting OAuth flow...'' w0)))
      in case loaded of
           None \<Rightarrow> flow w
         | Some c \<Rightarrow>
             if valid c then (Inr c, w)
             else if expired c \<and> truthy (refresh_token c) then
               (let w1 = call (NetRefresh c) (print ''Refreshing expired token...'' w)
                in case refresh env c of
                     Inr c' \<Rightarrow> then_save env a (Inr c', w1)
                   | Inl (RefreshError m) \<Rightarrow>
                       then_save env a (run_oauth_flow env a
                         (print ''Token refresh failed. Re-authenticating...'' w1))
                   | Inl e \<Rightarrow> (Inl e, w1))
             else flow w)"

definition authenticate ::
  "env \<Rightarrow> authenticator \<Rightarrow> world \<Rightarrow> (error + service) \<times> authenticator \<times> world" where
  "authenticate env a w =
     (if files w (a_credentials_file a) = None then
        (Inl (FileNotFoundError (not_found_message (a_credentials_file a))), a, w)
      else
        (case load_token a w of
           Inl e \<Rightarrow> (Inl e, a, w)
         | Inr loaded \<Rightarrow>
            (case obtain_creds env a loaded w of
               (Inl e, w1) \<Rightarrow> (Inl e, a, w1)
             | (Inr c, w1) \<Rightarrow>
                (let w2 = call (NetBuild c) w1
                 in case build env c of
                      Inl e \<Rightarrow> (Inl e, a, w2)
                    | Inr svc \<Rightarrow>
                        (Inr svc, a\<lparr>a_service := Some svc\<rparr>,
                         print ''Successfully authenticated with Gmail API'' w2)))))"

subsection \<open>\<^verbatim>\<open>GmailSearcher\<close>\<close>

text \<open>
  The authenticator is one object shared by reference: the searcher built inside
  \<^verbatim>\<open>export_search_results\<close> holds the retriever's authenticator. Each component
  returns its authenticator with its own state, and the caller stores it back.
\<close>

record searcher =
  s_auth :: authenticator
  s_service :: "service option"

definition new_searcher :: "authenticator \<Rightarrow> searcher" where
  "new_searcher a = \<lparr>s_auth = a, s_service = a_service a\<rparr>"

definition searcher_authenticate ::
  "env \<Rightarrow> searcher \<Rightarrow> world \<Rightarrow> (error + service) \<times> searcher \<times> world" where
  "searcher_authenticate env s w =
     (case s_service s of
        Some svc \<Rightarrow> (Inr svc, s, w)
      | None \<Rightarrow>
          (case authenticate env (s_auth s) w of
             (Inl e, a1, w1) \<Rightarrow> (Inl e, s\<lparr>s_auth := a1\<rparr>, w1)
           | (Inr svc, a1, w1) \<Rightarrow> (Inr svc, s\<lparr>s_auth := a1, s_service := Some svc\<rparr>, w1)))"

text \<open>Lines 96 to 108 of \<^verbatim>\<open>gmail_search.py\<close>.\<close>

definition message_info :: "string \<Rightarrow> metadata_response \<Rightarrow> error + search_item" where
  "message_info i message_data =
     (case mr_payload message_data of
        None \<Rightarrow> Inl (KeyError ''payload'')
      | Some payload \<Rightarrow>
         (let hdrs = header_dict (case headers payload of Some hs \<Rightarrow> hs | None \<Rightarrow> [])
          in case mr_threadId message_data of
               None \<Rightarrow> Inl (KeyError ''threadId'')
             | Some t \<Rightarrow>
                (case mr_snippet message_data of
                   None \<Rightarrow> Inl (KeyError ''snippet'')
                 | Some sn \<Rightarrow>
                     Inr \<lparr>si_id = i,
                          si_thread_id = t,
                          si_snippet = sn,
                          si_from = get_or hdrs ''From'' ''Unknown'',
                          si_to = get_or hdrs ''To'' ''Unknown'',
                          si_subject = get_or hdrs ''Subject'' ''No Subject'',
                          si_date = get_or hdrs ''Date'' ''Unknown'',
                          si_labels = (case mr_labelIds message_data of
                                         Some ls \<Rightarrow> ls | None \<Rightarrow> [])\<rparr>)))"

text \<open>Lines 88 to 108: the metadata request for one hit and the dictionary built from it.\<close>

definition fetch_info :: "env \<Rightarrow> msg_ref \<Rightarrow> world \<Rightarrow> (error + search_item) \<times> world" where
  "fetch_info env msg w =
     (case ref_id msg of
        None \<Rightarrow> (Inl (KeyError ''id''), w)
      | Some i \<Rightarrow>
          (let w1 = call (NetGetMetadata i) w
           in case get_metadata env i of
                Inl e \<Rightarrow> (Inl e, w1)
              | Inr message_data \<Rightarrow> (message_info i message_data, w1)))"

fun search_loop ::
  "env \<Rightarrow> nat \<Rightarrow> nat \<Rightarrow> msg_ref list \<Rightarrow> search_item list \<Rightarrow> world
     \<Rightarrow> (error + search_item list) \<times> world" where
  "search_loop env n_total i [] message_list w = (Inr message_list, w)"
| "search_loop env n_total i (msg # rest) message_list w =
     (let w1 = (if (i + 1) mod 10 = 0
                then print (''Processing message '' @ str_nat (i + 1) @ ''/''
                            @ str_nat n_total @ ''...'') w
                else w)
      in case fetch_info env msg w1 of
           (Inl e, w2) \<Rightarrow> (Inl e, w2)
         | (Inr info, w2) \<Rightarrow> search_loop env n_total (i + 1) rest (message_list @ [info]) w2)"

definition quoted :: "string \<Rightarrow> string" where
  "quoted s = [CHR 0x27] @ s @ [CHR 0x27]"

definition search ::
  "env \<Rightarrow> searcher \<Rightarrow> string \<Rightarrow> int \<Rightarrow> world
     \<Rightarrow> (error + search_item list) \<times> searcher \<times> world" where
  "search env s query max_results w =
     (case searcher_authenticate env s w of
        (Inl e, s1, w1) \<Rightarrow> (Inl e, s1, w1)
      | (Inr svc, s1, w1) \<Rightarrow>
         (let w2 = print (''Maximum results: '' @ str_int max_results)
                     (print (''Searching Gmail with query: '' @ quoted query) w1);
              w3 = call (NetList query max_results) w2
          in case list_messages env query max_results of
               Inl e \<Rightarrow> (Inr [], s1, print (''Error during search: '' @ str_error e) w3)
             | Inr result \<Rightarrow>
                (let messages = (case result of Some ms \<Rightarrow> ms | None \<Rightarrow> [])
                 in if messages = [] then
                      (Inr [], s1,
                       print (''No messages found matching query: '' @ quoted query) w3)
                    else
                      (case search_loop env (length messages) 0 messages []
                              (print (''Found '' @ str_nat (length messages) @ '' messages'') w3) of
                         (Inl e, w5) \<Rightarrow>
                           (Inr [], s1, print (''Error during search: '' @ str_error e) w5)
                       | (Inr message_list, w5) \<Rightarrow>
                           (Inr message_list, s1,
                            print (''Search complete. Retrieved ''
                                   @ str_nat (length message_list) @ '' messages.'') w5)))))"

subsection \<open>\<^verbatim>\<open>GmailRetriever\<close>\<close>

record retriever =
  r_auth :: authenticator
  r_service :: "service option"

definition retriever_authenticate ::
  "env \<Rightarrow> retriever \<Rightarrow> world \<Rightarrow> (error + service) \<times> retriever \<times> world" where
  "retriever_authenticate env r w =
     (case r_service r of
        Some svc \<Rightarrow> (Inr svc, r, w)
      | None \<Rightarrow>
          (case authenticate env (r_auth r) w of
             (Inl e, a1, w1) \<Rightarrow> (Inl e, r\<lparr>r_auth := a1\<rparr>, w1)
           | (Inr svc, a1, w1) \<Rightarrow> (Inr svc, r\<lparr>r_auth := a1, r_service := Some svc\<rparr>, w1)))"

definition get_full_message ::
  "env \<Rightarrow> retriever \<Rightarrow> string \<Rightarrow> world \<Rightarrow> (error + message option) \<times> retriever \<times> world" where
  "get_full_message env r message_id w =
     (case retriever_authenticate env r w of
        (Inl e, r1, w1) \<Rightarrow> (Inl e, r1, w1)
      | (Inr svc, r1, w1) \<Rightarrow>
         (let w2 = call (NetGetFull message_id) w1
          in case get_full env message_id of
               Inr msg \<Rightarrow> (Inr (Some msg), r1, w2)
             | Inl e \<Rightarrow>
                 (Inr None, r1,
                  print (''Error retrieving message '' @ message_id @ '': '' @ str_error e) w2)))"

text \<open>\<^verbatim>\<open>if message:\<close> is false for \<^verbatim>\<open>None\<close> and for a dictionary without keys.\<close>

definition nonempty_message :: "message \<Rightarrow> bool" where
  "nonempty_message m =
     (m_id m \<noteq> None \<or> m_threadId m \<noteq> None \<or> m_labelIds m \<noteq> None
      \<or> m_snippet m \<noteq> None \<or> m_payload m \<noteq> None \<or> m_other_keys m \<noteq> [])"

fun retrieve_loop ::
  "env \<Rightarrow> bool \<Rightarrow> nat \<Rightarrow> nat \<Rightarrow> string list \<Rightarrow> message list \<Rightarrow> retriever \<Rightarrow> world
     \<Rightarrow> (error + message list) \<times> retriever \<times> world" where
  "retrieve_loop env show_progress n_total i [] messages r w = (Inr messages, r, w)"
| "retrieve_loop env show_progress n_total i (msg_id # rest) messages r w =
     (let w1 = (if show_progress \<and> (i + 1) mod 10 = 0
                then print (''Retrieved '' @ str_nat (i + 1) @ ''/'' @ str_nat n_total
                            @ '' messages...'') w
                else w)
      in case get_full_message env r msg_id w1 of
           (Inl e, r1, w2) \<Rightarrow> (Inl e, r1, w2)
         | (Inr fetched, r1, w2) \<Rightarrow>
             retrieve_loop env show_progress n_total (i + 1) rest
               (case fetched of
                  Some m \<Rightarrow> if nonempty_message m then messages @ [m] else messages
                | None \<Rightarrow> messages)
               r1 w2)"

definition get_multiple_messages ::
  "env \<Rightarrow> retriever \<Rightarrow> string list \<Rightarrow> bool \<Rightarrow> world
     \<Rightarrow> (error + message list) \<times> retriever \<times> world" where
  "get_multiple_messages env r message_ids show_progress w =
     (case retriever_authenticate env r w of
        (Inl e, r1, w1) \<Rightarrow> (Inl e, r1, w1)
      | (Inr svc, r1, w1) \<Rightarrow>
         (let n_total = length message_ids;
              w2 = (if show_progress
                    then print (''Retrieving '' @ str_nat n_total @ '' messages...'') w1
                    else w1)
          in case retrieve_loop env show_progress n_total 0 message_ids [] r1 w2 of
               (Inl e, r2, w3) \<Rightarrow> (Inl e, r2, w3)
             | (Inr messages, r2, w3) \<Rightarrow>
                 (Inr messages, r2,
                  if show_progress
                  then print (''Successfully retrieved '' @ str_nat (length messages)
                              @ '' messages'') w3
                  else w3)))"

text \<open>\<^verbatim>\<open>', '.join(files_created)\<close>.\<close>

fun join :: "string \<Rightarrow> string list \<Rightarrow> string" where
  "join sep [] = []"
| "join sep [x] = x"
| "join sep (x # y # ys) = x @ sep @ join sep (y # ys)"

definition export_search_results ::
  "env \<Rightarrow> retriever \<Rightarrow> string \<Rightarrow> int \<Rightarrow> string \<Rightarrow> world
     \<Rightarrow> (error + summary) \<times> retriever \<times> world" where
  "export_search_results env r search_query max_results output_prefix w =
     (let w0 = print (''Starting export for query: '' @ quoted search_query) w
      in case search env (new_searcher (r_auth r)) search_query max_results w0 of
           (Inl e, s1, w1) \<Rightarrow> (Inl e, r\<lparr>r_auth := s_auth s1\<rparr>, w1)
         | (Inr search_results, s1, w1) \<Rightarrow>
            (let r1 = r\<lparr>r_auth := s_auth s1\<rparr>
             in if search_results = [] then
                  (Inr \<lparr>sm_search_query = None, sm_message_count = 0,
                        sm_files_created = [], sm_timestamp = None\<rparr>,
                   r1, print ''No messages found to export'' w1)
                else
                  (let message_ids = map si_id search_results
                   in case get_multiple_messages env r1 message_ids True w1 of
                        (Inl e, r2, w2) \<Rightarrow> (Inl e, r2, w2)
                      | (Inr full_messages, r2, w2) \<Rightarrow>
                         (let timestamp = now env;
                              json_file = output_prefix @ ''_'' @ timestamp @ ''.json'';
                              w3 = save_messages_json env full_messages json_file w2;
                              files1 = [] @ [json_file];
                              csv_file = output_prefix @ ''_'' @ timestamp @ ''.csv'';
                              w4 = save_messages_csv env full_messages csv_file w3;
                              files2 = files1 @ [csv_file];
                              text_file = output_prefix @ ''_'' @ timestamp @ ''.txt'';
                              w5 = save_messages_text env full_messages text_file w4;
                              files_created = files2 @ [text_file];
                              w6 = print (''Files created: '' @ join '', '' files_created)
                                    (print (''Messages exported: ''
                                            @ str_nat (length full_messages))
                                      (print (nl @ ''Export complete!'') w5))
                          in (Inr \<lparr>sm_search_query = Some search_query,
                                    sm_message_count = length full_messages,
                                    sm_files_created = files_created,
                                    sm_timestamp = Some timestamp\<rparr>,
                              r2, w6)))))"

subsection \<open>The part tree, as the specification speaks of it\<close>

text \<open>
  The parts below a part, and the depth-first pre-order enumeration of a part tree: a part
  before its children, the children from left to right. \<open>sub_parts p\<close> are the parts
  strictly below \<open>p\<close>, that is, the elements of some \<^verbatim>\<open>parts\<close> list at any depth.
\<close>

definition children :: "part \<Rightarrow> part list" where
  "children p = (case parts p of Some l \<Rightarrow> l | None \<Rightarrow> [])"

fun preorder_parts :: "part \<Rightarrow> part list" where
  "preorder_parts (Part fn mt bd hs ps) =
     Part fn mt bd hs ps
     # (case ps of None \<Rightarrow> [] | Some l \<Rightarrow> concat (map preorder_parts l))"

definition sub_parts :: "part \<Rightarrow> part list" where
  "sub_parts p = concat (map preorder_parts (children p))"

subsection \<open>What a call may touch\<close>

fun is_get_full :: "net_call \<Rightarrow> bool" where
  "is_get_full (NetGetFull i) = True"
| "is_get_full c = False"

text \<open>
  \<open>frame tok w w'\<close>: from \<open>w\<close> to \<open>w'\<close> no file other than \<open>tok\<close> has changed and no
  request for a full message has been made.
\<close>

definition frame :: "string \<Rightarrow> world \<Rightarrow> world \<Rightarrow> bool" where
  "frame tok w w' =
     ((\<forall>f. f \<noteq> tok \<longrightarrow> files w' f = files w f)
      \<and> filter is_get_full (network w') = filter is_get_full (network w))"

subsection \<open>Example inputs\<close>

definition plain_part :: "string \<Rightarrow> part" where
  "plain_part d =
     Part None (Some ''text/plain'')
       (Some \<lparr>body_data = Some d, body_size = Some (int (length d))\<rparr>) None None"

definition multipart :: "part list \<Rightarrow> part" where
  "multipart ps =
     Part (Some []) (Some ''multipart/mixed'')
       (Some \<lparr>body_data = None, body_size = Some 0\<rparr>) None (Some ps)"

definition message_of :: "part \<Rightarrow> message" where
  "message_of p =
     \<lparr>m_id = Some ''m1'', m_threadId = Some ''t1'', m_labelIds = Some [''INBOX''],
      m_snippet = Some ''hello'', m_payload = Some p,
      m_other_keys = [''historyId'', ''internalDate'', ''sizeEstimate'']\<rparr>"

text \<open>A text part \<open>dA\<close> followed by a multipart that holds a text part \<open>dB\<close>.\<close>

definition nested_plain_message :: "string \<Rightarrow> string \<Rightarrow> message" where
  "nested_plain_message dA dB =
     message_of (multipart [plain_part dA, multipart [plain_part dB]])"

definition pdf_part :: part where
  "pdf_part =
     Part (Some ''report.pdf'') (Some ''application/pdf'')
       (Some \<lparr>body_data = None, body_size = Some 1024\<rparr>) None None"

text \<open>An attachment two levels down, and a message whose top-level payload is the file.\<close>

definition nested_attachment_message :: message where
  "nested_attachment_message = message_of (multipart [multipart [pdf_part]])"

definition root_attachment_message :: message where
  "root_attachment_message = message_of pdf_part"


definition empty_world :: world where
  "empty_world = \<lparr>files = Map.empty, printed = [], network = []\<rparr>"

definition example_creds :: creds where
  "example_creds =
     \<lparr>valid = True, expired = False, refresh_token = Some ''r1'', access_token = ''a1''\<rparr>"

definition example_env :: env where
  "example_env =
     \<lparr>urlsafe_b64decode =
        (\<lambda>d. if d = ''QQ=='' then Some ''A'' else if d = ''Qg=='' then Some ''B'' else None),
      decode_utf8_replace = (\<lambda>raw. raw),
      strptime_isoformat =
        (\<lambda>s. if s = ''Mon, 02 Jan 2023 15:04:05 +0000''
             then Some ''2023-01-02T15:04:05+00:00'' else None),
      open_error = (\<lambda>f. None),
      now = ''20230102_150405'',
      refresh = (\<lambda>c. Inl (RefreshError ''invalid_grant'')),
      oauth_flow = (\<lambda>f. Inr example_creds),
      build = (\<lambda>c. Inr (Service c)),
      list_messages =
        (\<lambda>q n. if q = ''is:inbox'' then Inr (Some [MsgRef (Some ''m1'')]) else Inr None),
      get_metadata =
        (\<lambda>i. if i = ''m1''
             then Inr \<lparr>mr_threadId = Some ''t1'', mr_snippet = Some ''hello'',
                       mr_labelIds = Some [''INBOX''],
                       mr_payload = Some (Part None None None
                                            (Some [(''From'', ''ann@example.com'')]) None)\<rparr>
             else Inl (LibraryError ''HttpError 404'')),
      get_full =
        (\<lambda>i. if i = ''m1'' then Inr (nested_plain_message ''QQ=='' ''Qg=='')
             else Inl (LibraryError ''HttpError 404''))\<rparr>"

text \<open>An environment whose decoder yields 201 characters for \<open>long\<close>, 200 otherwise.\<close>

definition preview_env :: env where
  "preview_env =
     example_env\<lparr>urlsafe_b64decode :=
       (\<lambda>d. if d = ''long'' then Some (replicate 201 CHR ''x'')
            else Some (replicate 200 CHR ''y''))\<rparr>"

definition stale_world :: world where
  "stale_world = write_file ''out.csv'' (Written [CsvHeader [''id'']]) empty_world"

text \<open>The authenticator that searcher and retriever build by default, and two worlds.\<close>

definition default_authenticator :: authenticator where
  "default_authenticator =
     \<lparr>a_credentials_file = ''../credentials.json'', a_token_file = ''../token.pickle'',
      a_service = None\<rparr>"

definition fresh_world :: world where
  "fresh_world = write_file ''../credentials.json'' ClientSecrets empty_world"

text \<open>Components that hold a service already, as after a successful authentication.\<close>

definition ready_authenticator :: authenticator where
  "ready_authenticator = default_authenticator\<lparr>a_service := Some (Service example_creds)\<rparr>"

definition ready_searcher :: searcher where
  "ready_searcher = new_searcher ready_authenticator"

definition example_item :: search_item where
  "example_item =
     \<lparr>si_id = ''m1'', si_thread_id = ''t1'', si_snippet = ''hello'',
      si_from = ''ann@example.com'', si_to = ''Unknown'', si_subject = ''No Subject'',
      si_date = ''Unknown'', si_labels = [''INBOX'']\<rparr>"

definition ready_retriever :: retriever where
  "ready_retriever = \<lparr>r_auth = ready_authenticator, r_service = Some (Service example_creds)\<rparr>"

text \<open>An environment in which no file can be opened for writing.\<close>

definition locked_env :: env where
  "locked_env = example_env\<lparr>open_error := (\<lambda>f. Some ''[Errno 13] Permission denied'')\<rparr>"

section \<open>Properties\<close>

subsection \<open>Traversal of the part tree\<close>

lemma fold_append_text: "fold (\<lambda>p t. t @ f p) l acc = acc @ concat (map f l)"
  by (induction l arbitrary: acc) simp_all

lemma extract_from_payload_unfold:
  "extract_from_payload env p
     = own_text env p @ concat (map (extract_from_payload env) (children p))"
  by (cases p) (simp add: children_def fold_append_text split: option.splits)

lemma preorder_parts_unfold: "preorder_parts p = p # sub_parts p"
  by (cases p) (simp add: sub_parts_def children_def split: option.splits)

lemma concat_map_flatten:
  "(\<And>q. q \<in> set l \<Longrightarrow> f q = concat (map g (h q))) \<Longrightarrow>
   concat (map f l) = concat (map g (concat (map h l)))"
  by (induction l) simp_all

lemma extract_from_payload_flat:
  "extract_from_payload env p = concat (map (own_text env) (preorder_parts p))"
proof (induction p)
  case (Part fn mt bd hs ps)
  show ?case
  proof (cases ps)
    case None
    then show ?thesis by simp
  next
    case (Some l)
    have IH: "\<And>q. q \<in> set l \<Longrightarrow>
        extract_from_payload env q = concat (map (own_text env) (preorder_parts q))"
      using Part Some by simp
    have "concat (map (extract_from_payload env) l)
          = concat (map (own_text env) (concat (map preorder_parts l)))"
      by (rule concat_map_flatten) (simp add: IH)
    with Some show ?thesis by (simp add: fold_append_text)
  qed
qed

lemma record_part_append: "record_part q a = a @ record_part q []"
  by (simp add: record_part_def split: option.splits)

lemma fold_find_attachments:
  "(\<And>q a. q \<in> set l \<Longrightarrow> find_attachments q a = a @ F q) \<Longrightarrow>
   fold (\<lambda>p a. find_attachments p (record_part p a)) l acc
     = acc @ concat (map (\<lambda>q. record_part q [] @ F q) l)"
proof (induction l arbitrary: acc)
  case Nil
  then show ?case by simp
next
  case (Cons q l)
  have step: "find_attachments q (record_part q acc) = acc @ record_part q [] @ F q"
    using Cons.prems [of q "record_part q acc"] record_part_append [of q acc] by simp
  have "fold (\<lambda>p a. find_attachments p (record_part p a)) l (acc @ record_part q [] @ F q)
          = (acc @ record_part q [] @ F q) @ concat (map (\<lambda>q. record_part q [] @ F q) l)"
    using Cons.IH [of "acc @ record_part q [] @ F q"] Cons.prems by simp
  with step show ?case by simp
qed

lemma find_attachments_collect:
  "find_attachments p acc = acc @ concat (map (\<lambda>q. record_part q []) (sub_parts p))"
proof (induction p arbitrary: acc)
  case (Part fn mt bd hs ps)
  show ?case
  proof (cases ps)
    case None
    then show ?thesis by (simp add: sub_parts_def children_def)
  next
    case (Some l)
    have IH: "\<And>q a. q \<in> set l \<Longrightarrow>
        find_attachments q a = a @ concat (map (\<lambda>q. record_part q []) (sub_parts q))"
      using Part Some by simp
    have "concat (map (\<lambda>q. record_part q []
                          @ concat (map (\<lambda>q. record_part q []) (sub_parts q))) l)
          = concat (map (\<lambda>q. record_part q []) (concat (map preorder_parts l)))"
      by (induction l) (simp_all add: preorder_parts_unfold)
    with fold_find_attachments [OF IH, of l acc] Some show ?thesis
      by (simp add: sub_parts_def children_def)
  qed
qed

lemma sub_parts_unfold: "sub_parts p = concat (map (\<lambda>c. c # sub_parts c) (children p))"
proof -
  have "preorder_parts = (\<lambda>c. c # sub_parts c)"
    by (rule ext) (rule preorder_parts_unfold)
  then show ?thesis by (simp add: sub_parts_def [of p])
qed

subsection \<open>The metadata dictionary\<close>

lemma metadata_Inr_iff:
  "(\<exists>md. extract_message_metadata env msg = Inr md)
     = (m_id msg \<noteq> None \<and> m_threadId msg \<noteq> None)"
  by (cases "m_id msg"; cases "m_threadId msg")
     (simp_all add: extract_message_metadata_def Let_def)

lemma metadata_Inr_fields:
  assumes "extract_message_metadata env msg = Inr md"
  shows "md_date_raw md = get_or (header_dict (message_headers msg)) ''Date'' []"
    and "md_date md = parsed_date env (get_or (header_dict (message_headers msg)) ''Date'' [])"
    and "md_attachments md = message_attachments msg"
    and "md_attachment_count md = length (message_attachments msg)"
    and "md_from md = get_or (header_dict (message_headers msg)) ''From'' []"
    and "md_to md = get_or (header_dict (message_headers msg)) ''To'' []"
    and "md_subject md = get_or (header_dict (message_headers msg)) ''Subject'' []"
proof -
  obtain i t where "m_id msg = Some i" "m_threadId msg = Some t"
    using assms by (cases "m_id msg"; cases "m_threadId msg")
      (simp_all add: extract_message_metadata_def Let_def)
  with assms have md: "md =
     \<lparr>md_id = i,
      md_thread_id = t,
      md_labels = (case m_labelIds msg of Some ls \<Rightarrow> ls | None \<Rightarrow> []),
      md_snippet = (case m_snippet msg of Some s \<Rightarrow> s | None \<Rightarrow> []),
      md_from = get_or (header_dict (message_headers msg)) ''From'' [],
      md_to = get_or (header_dict (message_headers msg)) ''To'' [],
      md_cc = get_or (header_dict (message_headers msg)) ''Cc'' [],
      md_bcc = get_or (header_dict (message_headers msg)) ''Bcc'' [],
      md_subject = get_or (header_dict (message_headers msg)) ''Subject'' [],
      md_date = parsed_date env (get_or (header_dict (message_headers msg)) ''Date'' []),
      md_date_raw = get_or (header_dict (message_headers msg)) ''Date'' [],
      md_attachments = message_attachments msg,
      md_attachment_count = length (message_attachments msg)\<rparr>"
    unfolding extract_message_metadata_def Let_def by simp
  show "md_date_raw md = get_or (header_dict (message_headers msg)) ''Date'' []"
    by (simp add: md)
  show "md_date md = parsed_date env (get_or (header_dict (message_headers msg)) ''Date'' [])"
    by (simp add: md)
  show "md_attachments md = message_attachments msg" by (simp add: md)
  show "md_attachment_count md = length (message_attachments msg)" by (simp add: md)
  show "md_from md = get_or (header_dict (message_headers msg)) ''From'' []" by (simp add: md)
  show "md_to md = get_or (header_dict (message_headers msg)) ''To'' []" by (simp add: md)
  show "md_subject md = get_or (header_dict (message_headers msg)) ''Subject'' []"
    by (simp add: md)
qed

lemma example_metadata_Inr:
  "\<exists>md. extract_message_metadata env (message_of p) = Inr md"
  by (simp add: metadata_Inr_iff message_of_def)

subsection \<open>Claims about the pure extraction functions\<close>

text \<open>
  Claim C4. \<^verbatim>\<open>extract_email_body\<close> concatenates in depth-first pre-order. For every
  message the body is the concatenation of the own texts of the parts of the payload tree
  in pre-order (a part first, then its children from left to right), and the empty string
  when the message has no payload; so the body of a message with payload \<open>p\<close> is the own
  text of \<open>p\<close> followed by the bodies that its children yield, in order. The own text of
  a \<open>text/plain\<close> part with inline data is that data base64url-decoded and then decoded
  as UTF-8 with the \<^verbatim>\<open>replace\<close> handler, a decoding that is defined on every byte
  string; only the base64 step can raise, and then the own text is the empty string. A
  part without inline data has no own text. A multipart with a text part decoding to
  \<open>A\<close> followed by a multipart that holds a text part decoding to \<open>B\<close> yields \<open>AB\<close>.
\<close>

theorem extract_email_body_preorder:
  "extract_email_body env msg =
     (case m_payload msg of
        None \<Rightarrow> []
      | Some q \<Rightarrow> concat (map (own_text env) (preorder_parts q)))
   \<and> preorder_parts p = p # concat (map preorder_parts (children p))
   \<and> children p = (case parts p of Some l \<Rightarrow> l | None \<Rightarrow> [])
   \<and> extract_email_body env (msg\<lparr>m_payload := Some p\<rparr>)
       = own_text env p
         @ concat (map (\<lambda>c. extract_email_body env (msg\<lparr>m_payload := Some c\<rparr>)) (children p))
   \<and> (mimeType p = Some ''text/plain'' \<and> body p = Some b \<and> body_data b = Some d \<longrightarrow>
        own_text env p = decode_base64 env d)
   \<and> decode_base64 env d =
        (case urlsafe_b64decode env d of
           Some raw \<Rightarrow> decode_utf8_replace env raw
         | None \<Rightarrow> [])
   \<and> (body p = None \<or> (body p = Some b \<and> body_data b = None) \<longrightarrow> own_text env p = [])
   \<and> (decode_base64 env dA = ''A'' \<and> decode_base64 env dB = ''B'' \<longrightarrow>
        extract_email_body env (nested_plain_message dA dB) = ''AB'')"
proof (intro conjI impI)
  show "extract_email_body env msg =
     (case m_payload msg of
        None \<Rightarrow> []
      | Some q \<Rightarrow> concat (map (own_text env) (preorder_parts q)))"
    by (simp add: extract_email_body_def extract_from_payload_flat split: option.splits)
  show "preorder_parts p = p # concat (map preorder_parts (children p))"
    using preorder_parts_unfold [of p] by (simp add: sub_parts_def)
  show "children p = (case parts p of Some l \<Rightarrow> l | None \<Rightarrow> [])"
    by (simp add: children_def)
  show "extract_email_body env (msg\<lparr>m_payload := Some p\<rparr>)
       = own_text env p
         @ concat (map (\<lambda>c. extract_email_body env (msg\<lparr>m_payload := Some c\<rparr>)) (children p))"
    using extract_from_payload_unfold [of env p] by (simp add: extract_email_body_def)
  show "decode_base64 env d =
        (case urlsafe_b64decode env d of
           Some raw \<Rightarrow> decode_utf8_replace env raw
         | None \<Rightarrow> [])"
    by (simp add: decode_base64_def)
next
  assume "mimeType p = Some ''text/plain'' \<and> body p = Some b \<and> body_data b = Some d"
  then show "own_text env p = decode_base64 env d"
    by (simp add: own_text_def)
next
  assume "body p = None \<or> (body p = Some b \<and> body_data b = None)"
  then show "own_text env p = []"
    by (auto simp: own_text_def)
next
  assume "decode_base64 env dA = ''A'' \<and> decode_base64 env dB = ''B''"
  then show "extract_email_body env (nested_plain_message dA dB) = ''AB''"
    by (simp add: extract_email_body_def nested_plain_message_def message_of_def multipart_def
        plain_part_def own_text_def)
qed

text \<open>
  The theorem of C4 at the example environment, where \<open>QQ==\<close> decodes to \<open>A\<close> and
  \<open>Qg==\<close> to \<open>B\<close>, and on a tree whose last text part follows a nested multipart.
\<close>

theorem extract_email_body_preorder_witness:
  "extract_email_body example_env (nested_plain_message ''QQ=='' ''Qg=='') = ''AB''
   \<and> own_text example_env (plain_part ''QQ=='') = ''A''
   \<and> own_text example_env (multipart [plain_part ''Qg=='']) = []
   \<and> extract_email_body example_env
        (message_of (multipart
           [plain_part ''QQ=='', multipart [plain_part ''Qg==''], plain_part ''QQ=='']))
       = ''ABA''"
proof -
  have d: "decode_base64 example_env ''QQ=='' = ''A''" "decode_base64 example_env ''Qg=='' = ''B''"
    by (simp_all add: decode_base64_def example_env_def)
  have 1: "extract_email_body example_env (nested_plain_message ''QQ=='' ''Qg=='') = ''AB''"
    using extract_email_body_preorder [of example_env _ _ _ _ "''QQ==''" "''Qg==''"] d by blast
  have 2: "own_text example_env (plain_part ''QQ=='') = ''A''"
    using extract_email_body_preorder [of example_env _ "plain_part ''QQ==''"
        "\<lparr>body_data = Some ''QQ=='', body_size = Some 4\<rparr>" "''QQ==''"] d
    by (simp add: plain_part_def)
  have 3: "own_text example_env (multipart [plain_part ''Qg=='']) = []"
    using extract_email_body_preorder [of example_env _ "multipart [plain_part ''Qg=='']"
        "\<lparr>body_data = None, body_size = Some 0\<rparr>"]
    by (simp add: multipart_def)
  have 4: "extract_email_body example_env
        (message_of (multipart
           [plain_part ''QQ=='', multipart [plain_part ''Qg==''], plain_part ''QQ=='']))
       = ''ABA''"
    using extract_email_body_preorder [of example_env
        "message_of (multipart
           [plain_part ''QQ=='', multipart [plain_part ''Qg==''], plain_part ''QQ==''])"
        "plain_part ''QQ==''"] d
    by (simp add: message_of_def multipart_def plain_part_def own_text_def)
  from 1 2 3 4 show ?thesis by simp
qed

text \<open>
  What \<^verbatim>\<open>find_attachments\<close> does record: for a message with a payload, the attachment
  list holds, in pre-order, one descriptor for each part strictly below the top-level
  payload that has a non-empty filename, whatever its depth: the filename, the MIME type
  or the empty string, the body size or 0. \<open>attachment_count\<close> is the length of the
  list.
\<close>

lemma find_attachments_below_payload:
  assumes "extract_message_metadata env msg = Inr md" and "m_payload msg = Some p"
  shows "md_attachments md = concat (map (\<lambda>q. record_part q []) (sub_parts p))
     \<and> (\<forall>q f. q \<in> set (sub_parts p) \<and> filename q = Some f \<and> f \<noteq> [] \<longrightarrow>
           \<lparr>att_filename = f,
            att_mimeType = (case mimeType q of Some t \<Rightarrow> t | None \<Rightarrow> []),
            att_size = (case body q of None \<Rightarrow> 0
                        | Some b \<Rightarrow> (case body_size b of Some n \<Rightarrow> n | None \<Rightarrow> 0))\<rparr>
             \<in> set (md_attachments md))
     \<and> sub_parts p = concat (map (\<lambda>c. c # sub_parts c) (children p))
     \<and> md_attachment_count md = length (md_attachments md)"
proof -
  from assms have att: "md_attachments md = find_attachments p []"
    and cnt: "md_attachment_count md = length (md_attachments md)"
    by (simp_all add: metadata_Inr_fields message_attachments_def)
  have eq: "md_attachments md = concat (map (\<lambda>q. record_part q []) (sub_parts p))"
    using att find_attachments_collect [of p "[]"] by simp
  have mem: "\<lparr>att_filename = f,
            att_mimeType = (case mimeType q of Some t \<Rightarrow> t | None \<Rightarrow> []),
            att_size = (case body q of None \<Rightarrow> 0
                        | Some b \<Rightarrow> (case body_size b of Some n \<Rightarrow> n | None \<Rightarrow> 0))\<rparr>
             \<in> set (md_attachments md)"
    if "q \<in> set (sub_parts p)" "filename q = Some f" "f \<noteq> []" for q f
  proof -
    have "record_part q [] = [descriptor f q]"
      using that by (simp add: record_part_def)
    then show ?thesis using that eq by (force simp: descriptor_def)
  qed
  from eq mem sub_parts_unfold [of p] cnt show ?thesis by blast
qed

text \<open>An attachment nested in a multipart in a multipart is found.\<close>

lemma find_attachments_below_payload_example:
  "(case extract_message_metadata example_env nested_attachment_message of
      Inr md \<Rightarrow> md_attachments md =
                 [\<lparr>att_filename = ''report.pdf'', att_mimeType = ''application/pdf'',
                   att_size = 1024\<rparr>]
               \<and> md_attachment_count md = 1
    | Inl e \<Rightarrow> False)"
proof -
  obtain md where md: "extract_message_metadata example_env nested_attachment_message = Inr md"
    using example_metadata_Inr [of example_env] by (auto simp: nested_attachment_message_def)
  have p: "m_payload nested_attachment_message = Some (multipart [multipart [pdf_part]])"
    by (simp add: nested_attachment_message_def message_of_def)
  show ?thesis
    using find_attachments_below_payload [OF md p] md
    by (simp add: sub_parts_def children_def multipart_def pdf_part_def record_part_def
        descriptor_def)
qed

text \<open>
  Claim C3. Every part of the payload tree that carries a non-empty filename is to be
  recorded. The top-level payload is a part of the tree, and \<^verbatim>\<open>extract_email_body\<close>
  treats it as one, but \<^verbatim>\<open>find_attachments\<close> tests a part only from the loop over its
  parent's \<^verbatim>\<open>parts\<close>, so the top-level payload is never tested: for a message that is
  itself a file the attachment list is empty and \<open>attachment_count\<close> is 0.
\<close>

theorem find_attachments_misses_root:
  "m_payload root_attachment_message = Some pdf_part
   \<and> pdf_part \<in> set (preorder_parts pdf_part)
   \<and> filename pdf_part = Some ''report.pdf''
   \<and> (case extract_message_metadata example_env root_attachment_message of
        Inr md \<Rightarrow> md_attachments md = [] \<and> md_attachment_count md = 0
      | Inl e \<Rightarrow> False)"
  by (simp add: pdf_part_def root_attachment_message_def message_of_def
      extract_message_metadata_def message_attachments_def Let_def)




subsection \<open>Effects on the world\<close>

lemma files_print [simp]: "files (print l w) = files w"
  and network_print [simp]: "network (print l w) = network w"
  and printed_print [simp]: "printed (print l w) = printed w @ [l]"
  by (simp_all add: print_def)

lemma files_call [simp]: "files (call c w) = files w"
  and network_call [simp]: "network (call c w) = network w @ [c]"
  and printed_call [simp]: "printed (call c w) = printed w"
  by (simp_all add: call_def)

lemma files_write_file [simp]: "files (write_file f c w) = (files w)(f \<mapsto> c)"
  and network_write_file [simp]: "network (write_file f c w) = network w"
  and printed_write_file [simp]: "printed (write_file f c w) = printed w"
  by (simp_all add: write_file_def)

lemma files_append_file:
  "files w f = Some (Written cs) \<Longrightarrow>
   files (append_file f c w) f = Some (Written (cs @ [c]))"
  by (simp add: append_file_def)

lemma network_append_file [simp]: "network (append_file f c w) = network w"
  and printed_append_file [simp]: "printed (append_file f c w) = printed w"
  by (simp_all add: append_file_def split: option.splits file_content.splits)

lemma write_rows_content:
  "files w f = Some (Written cs) \<Longrightarrow>
   \<exists>rows. files (snd (write_rows env f msgs w)) f = Some (Written (cs @ rows))
      \<and> (\<forall>c \<in> set rows. \<exists>msg \<in> set msgs. \<exists>md.
             extract_message_metadata env msg = Inr md
             \<and> c = CsvRow md (body_preview (extract_email_body env msg)))"
proof (induction msgs arbitrary: w cs)
  case Nil
  then show ?case by (intro exI [of _ "[]"]) simp
next
  case (Cons msg rest)
  show ?case
  proof (cases "extract_message_metadata env msg")
    case (Inl e)
    with Cons.prems show ?thesis by (intro exI [of _ "[]"]) simp
  next
    case (Inr md)
    let ?c = "CsvRow md (body_preview (extract_email_body env msg))"
    let ?w = "append_file f ?c w"
    have "files ?w f = Some (Written (cs @ [?c]))"
      using Cons.prems by (rule files_append_file)
    from Cons.IH [OF this] obtain rows where
      r: "files (snd (write_rows env f rest ?w)) f = Some (Written ((cs @ [?c]) @ rows))"
         "\<forall>c \<in> set rows. \<exists>msg \<in> set rest. \<exists>md.
             extract_message_metadata env msg = Inr md
             \<and> c = CsvRow md (body_preview (extract_email_body env msg))"
      by blast
    have "files (snd (write_rows env f (msg # rest) w)) f = Some (Written (cs @ (?c # rows)))"
      using r(1) Inr by simp
    moreover have "\<forall>c \<in> set (?c # rows). \<exists>m \<in> set (msg # rest). \<exists>md.
             extract_message_metadata env m = Inr md
             \<and> c = CsvRow md (body_preview (extract_email_body env m))"
      using r(2) Inr by auto
    ultimately show ?thesis by blast
  qed
qed

lemma write_rows_all:
  "(\<forall>msg \<in> set msgs. \<exists>md. extract_message_metadata env msg = Inr md) \<Longrightarrow>
   files w f = Some (Written cs) \<Longrightarrow>
   fst (write_rows env f msgs w) = None
   \<and> files (snd (write_rows env f msgs w)) f
       = Some (Written (cs @ map (\<lambda>msg. CsvRow (projr (extract_message_metadata env msg))
                                    (body_preview (extract_email_body env msg))) msgs))"
proof (induction msgs arbitrary: w cs)
  case Nil
  then show ?case by simp
next
  case (Cons msg rest)
  then obtain md where md: "extract_message_metadata env msg = Inr md" by auto
  let ?c = "CsvRow md (body_preview (extract_email_body env msg))"
  let ?w = "append_file f ?c w"
  have "files ?w f = Some (Written (cs @ [?c]))"
    using Cons.prems(2) by (rule files_append_file)
  moreover have "\<forall>msg \<in> set rest. \<exists>md. extract_message_metadata env msg = Inr md"
    using Cons.prems(1) by simp
  ultimately have ih: "fst (write_rows env f rest ?w) = None
    \<and> files (snd (write_rows env f rest ?w)) f
       = Some (Written ((cs @ [?c]) @ map (\<lambda>msg. CsvRow (projr (extract_message_metadata env msg))
                                         (body_preview (extract_email_body env msg))) rest))"
    using Cons.IH [of ?w "cs @ [?c]"] by blast
  have "write_rows env f (msg # rest) w = write_rows env f rest ?w"
    using md by simp
  then show ?case using ih md by simp
qed

lemma save_messages_csv_nonempty:
  "open_error env fname = None \<Longrightarrow> messages \<noteq> [] \<Longrightarrow>
   extract_message_metadata env (hd messages) = Inr sample \<Longrightarrow>
   files (save_messages_csv env messages fname w)
     = files (snd (write_rows env fname messages
         (append_file fname (CsvHeader (metadata_keys @ [''body_preview'']))
            (write_file fname (Written []) w))))"
  by (cases messages)
     (simp_all add: save_messages_csv_def Let_def split: prod.splits option.splits)

lemma save_messages_csv_files:
  assumes "open_error env fname = None"
  shows "\<exists>cs. files (save_messages_csv env messages fname w) fname = Some (Written cs)
     \<and> (\<forall>md pv. CsvRow md pv \<in> set cs \<longrightarrow>
           (\<exists>msg \<in> set messages. extract_message_metadata env msg = Inr md
              \<and> pv = body_preview (extract_email_body env msg)))"
proof (cases messages)
  case Nil
  with assms show ?thesis by (intro exI [of _ "[]"]) (simp add: save_messages_csv_def)
next
  case (Cons first rest)
  show ?thesis
  proof (cases "extract_message_metadata env first")
    case (Inl e)
    with assms Cons show ?thesis
      by (intro exI [of _ "[]"]) (simp add: save_messages_csv_def)
  next
    case (Inr sample)
    let ?h = "CsvHeader (metadata_keys @ [''body_preview''])"
    let ?w1 = "write_file fname (Written []) w"
    let ?w2 = "append_file fname ?h ?w1"
    have "files ?w2 fname = Some (Written ([] @ [?h]))"
      by (rule files_append_file) simp
    then have "files ?w2 fname = Some (Written [?h])" by simp
    from write_rows_content [OF this, of env messages] obtain rows where
      r: "files (snd (write_rows env fname messages ?w2)) fname = Some (Written ([?h] @ rows))"
         "\<forall>c \<in> set rows. \<exists>msg \<in> set messages. \<exists>md.
             extract_message_metadata env msg = Inr md
             \<and> c = CsvRow md (body_preview (extract_email_body env msg))"
      by blast
    have "files (save_messages_csv env messages fname w)
            = files (snd (write_rows env fname messages ?w2))"
      using assms Cons Inr by (intro save_messages_csv_nonempty [of _ _ _ sample]) simp_all
    then have "files (save_messages_csv env messages fname w) fname = Some (Written (?h # rows))"
      using r(1) by simp
    moreover have "\<forall>md pv. CsvRow md pv \<in> set (?h # rows) \<longrightarrow>
           (\<exists>msg \<in> set messages. extract_message_metadata env msg = Inr md
              \<and> pv = body_preview (extract_email_body env msg))"
      using r(2) by auto
    ultimately show ?thesis by blast
  qed
qed

lemma save_messages_csv_all:
  assumes "open_error env fname = None" and "messages \<noteq> []"
    and "\<forall>msg \<in> set messages. \<exists>md. extract_message_metadata env msg = Inr md"
  shows "files (save_messages_csv env messages fname w) fname
     = Some (Written (CsvHeader (metadata_keys @ [''body_preview''])
          # map (\<lambda>msg. CsvRow (projr (extract_message_metadata env msg))
                          (body_preview (extract_email_body env msg))) messages))"
proof -
  obtain first rest where Cons: "messages = first # rest"
    using assms(2) by (cases messages) auto
  obtain sample where Inr: "extract_message_metadata env first = Inr sample"
    using assms(3) Cons by auto
  let ?h = "CsvHeader (metadata_keys @ [''body_preview''])"
  let ?w1 = "write_file fname (Written []) w"
  let ?w2 = "append_file fname ?h ?w1"
  have "files ?w2 fname = Some (Written ([] @ [?h]))"
    by (rule files_append_file) simp
  then have "files ?w2 fname = Some (Written [?h])" by simp
  from write_rows_all [OF assms(3) this]
  have r: "fst (write_rows env fname messages ?w2) = None"
    "files (snd (write_rows env fname messages ?w2)) fname
       = Some (Written ([?h] @ map (\<lambda>msg. CsvRow (projr (extract_message_metadata env msg))
                                    (body_preview (extract_email_body env msg))) messages))"
    by simp_all
  have "files (save_messages_csv env messages fname w)
          = files (snd (write_rows env fname messages ?w2))"
    using assms(1,2) Cons Inr by (intro save_messages_csv_nonempty [of _ _ _ sample]) simp_all
  then show ?thesis using r(2) by simp
qed

subsection \<open>Claims about the CSV export\<close>

text \<open>
  Claim C6. When the file opens, every row that \<^verbatim>\<open>save_messages_csv\<close> writes belongs to
  one of the messages and its \<open>body_preview\<close> column is the whole extracted body when the
  body has at most 200 characters, and the first 200 characters followed by \<open>...\<close> when
  it is longer. When every message has \<open>id\<close> and \<open>threadId\<close>, the file is the header
  row followed by exactly one such row per message, in order.
\<close>

theorem save_messages_csv_body_preview:
  assumes "open_error env fname = None"
  shows "(\<exists>cs. files (save_messages_csv env messages fname w) fname = Some (Written cs)
           \<and> (\<forall>md pv. CsvRow md pv \<in> set cs \<longrightarrow>
                 (\<exists>msg \<in> set messages. extract_message_metadata env msg = Inr md
                    \<and> pv = (if length (extract_email_body env msg) \<le> 200
                            then extract_email_body env msg
                            else take 200 (extract_email_body env msg) @ ''...''))))
     \<and> (messages \<noteq> [] \<and> (\<forall>msg \<in> set messages. m_id msg \<noteq> None \<and> m_threadId msg \<noteq> None) \<longrightarrow>
          files (save_messages_csv env messages fname w) fname
            = Some (Written (CsvHeader (metadata_keys @ [''body_preview''])
                # map (\<lambda>msg. CsvRow (projr (extract_message_metadata env msg))
                         (if length (extract_email_body env msg) \<le> 200
                          then extract_email_body env msg
                          else take 200 (extract_email_body env msg) @ ''...'')) messages)))"
proof -
  have bp: "body_preview t = (if length t \<le> 200 then t else take 200 t @ ''...'')" for t
    by (simp add: body_preview_def)
  have a: "\<exists>cs. files (save_messages_csv env messages fname w) fname = Some (Written cs)
           \<and> (\<forall>md pv. CsvRow md pv \<in> set cs \<longrightarrow>
                 (\<exists>msg \<in> set messages. extract_message_metadata env msg = Inr md
                    \<and> pv = (if length (extract_email_body env msg) \<le> 200
                            then extract_email_body env msg
                            else take 200 (extract_email_body env msg) @ ''...'')))"
    using save_messages_csv_files [OF assms, of messages w] unfolding bp .
  have b: "files (save_messages_csv env messages fname w) fname
            = Some (Written (CsvHeader (metadata_keys @ [''body_preview''])
                # map (\<lambda>msg. CsvRow (projr (extract_message_metadata env msg))
                         (if length (extract_email_body env msg) \<le> 200
                          then extract_email_body env msg
                          else take 200 (extract_email_body env msg) @ ''...'')) messages))"
    if "messages \<noteq> []" "\<forall>msg \<in> set messages. m_id msg \<noteq> None \<and> m_threadId msg \<noteq> None"
  proof -
    have "\<forall>msg \<in> set messages. \<exists>md. extract_message_metadata env msg = Inr md"
      using that(2) by (simp add: metadata_Inr_iff)
    from save_messages_csv_all [OF assms that(1) this, of w] show ?thesis
      unfolding bp .
  qed
  from a b show ?thesis by blast
qed

text \<open>The theorem of C6 on a body of 201 characters and a body of 200 characters.\<close>

theorem save_messages_csv_body_preview_witness:
  "files (save_messages_csv preview_env
            [message_of (plain_part ''long''), message_of (plain_part ''short'')]
            ''out.csv'' empty_world) ''out.csv''
     = Some (Written
         [CsvHeader (metadata_keys @ [''body_preview'']),
          CsvRow (projr (extract_message_metadata preview_env (message_of (plain_part ''long''))))
            (replicate 200 CHR ''x'' @ ''...''),
          CsvRow (projr (extract_message_metadata preview_env (message_of (plain_part ''short''))))
            (replicate 200 CHR ''y'')])"
proof -
  have o: "open_error preview_env ''out.csv'' = None"
    by (simp add: preview_env_def example_env_def)
  have b: "extract_email_body preview_env (message_of (plain_part ''long'')) = replicate 201 CHR ''x''"
    "extract_email_body preview_env (message_of (plain_part ''short'')) = replicate 200 CHR ''y''"
    by (simp_all add: extract_email_body_def message_of_def plain_part_def own_text_def
        decode_base64_def preview_env_def example_env_def)
  have ids: "m_id (message_of p) = Some ''m1''" "m_threadId (message_of p) = Some ''t1''" for p
    by (simp_all add: message_of_def)
  show ?thesis
    using conjunct2 [OF save_messages_csv_body_preview [OF o,
        of "[message_of (plain_part ''long''), message_of (plain_part ''short'')]" empty_world]]
    by (simp add: b ids)
qed

text \<open>
  Claim C1. On the empty list \<^verbatim>\<open>save_messages_csv\<close> reports that there is nothing to
  save, but the file has been opened for writing before the test: a file that did not
  exist is created empty, and a file that existed is emptied.
\<close>

theorem save_messages_csv_empty_creates_file:
  "files empty_world ''out.csv'' = None
   \<and> files (save_messages_csv example_env [] ''out.csv'' empty_world) ''out.csv''
       = Some (Written [])
   \<and> printed (save_messages_csv example_env [] ''out.csv'' empty_world)
       = [''No messages to save'']
   \<and> files stale_world ''out.csv'' = Some (Written [CsvHeader [''id'']])
   \<and> files (save_messages_csv example_env [] ''out.csv'' stale_world) ''out.csv''
       = Some (Written [])"
  by (simp add: save_messages_csv_def example_env_def empty_world_def stale_world_def)

subsection \<open>Claim about the authenticator\<close>

text \<open>
  Claim C8. When no file exists at the credentials path, \<^verbatim>\<open>authenticate\<close> raises
  \<^verbatim>\<open>FileNotFoundError\<close> with a message that names the path and tells the operator to
  download the file from the Google Cloud Console, and leaves the world as it was: no file
  is written (the token store included), no call leaves the process, nothing is printed,
  and the authenticator keeps no service.
\<close>

theorem authenticate_missing_credentials:
  assumes "files w (a_credentials_file a) = None"
  shows "authenticate env a w =
    (Inl (FileNotFoundError
       (''Credentials file '' @ [CHR 0x27] @ a_credentials_file a @ [CHR 0x27]
        @ '' not found. Please download it from Google Cloud Console.'')),
     a, w)"
  using assms by (simp add: authenticate_def not_found_message_def)

text \<open>
  The theorem of C8 at the default paths in an empty filesystem; once the credentials file
  exists, the same call runs the consent flow and writes the token store.
\<close>

theorem authenticate_missing_credentials_witness:
  "authenticate example_env default_authenticator empty_world =
     (Inl (FileNotFoundError
        (''Credentials file '' @ [CHR 0x27] @ ''../credentials.json'' @ [CHR 0x27]
         @ '' not found. Please download it from Google Cloud Console.'')),
      default_authenticator, empty_world)
   \<and> network (snd (snd (authenticate example_env default_authenticator fresh_world)))
       = [NetOAuthFlow ''../credentials.json'', NetBuild example_creds]
   \<and> files (snd (snd (authenticate example_env default_authenticator fresh_world)))
         ''../token.pickle'' = Some (Pickle example_creds)"
proof -
  have "files empty_world (a_credentials_file default_authenticator) = None"
    by (simp add: empty_world_def)
  from authenticate_missing_credentials [OF this, of example_env]
  have 1: "authenticate example_env default_authenticator empty_world =
     (Inl (FileNotFoundError
        (''Credentials file '' @ [CHR 0x27] @ ''../credentials.json'' @ [CHR 0x27]
         @ '' not found. Please download it from Google Cloud Console.'')),
      default_authenticator, empty_world)"
    by (simp add: default_authenticator_def)
  have 2: "network (snd (snd (authenticate example_env default_authenticator fresh_world)))
       = [NetOAuthFlow ''../credentials.json'', NetBuild example_creds]"
    "files (snd (snd (authenticate example_env default_authenticator fresh_world)))
         ''../token.pickle'' = Some (Pickle example_creds)"
    by (simp_all add: authenticate_def load_token_def obtain_creds_def then_save_def
        run_oauth_flow_def save_token_def Let_def default_authenticator_def fresh_world_def
        empty_world_def example_env_def)
  from 1 2 show ?thesis by simp
qed

subsection \<open>The search loop\<close>

lemma message_info_fields:
  assumes "message_info i message_data = Inr item"
  shows "si_id item = i
    \<and> (\<exists>payload. mr_payload message_data = Some payload
         \<and> si_from item = get_or (header_dict (case headers payload of Some hs \<Rightarrow> hs | None \<Rightarrow> []))
                             ''From'' ''Unknown''
         \<and> si_to item = get_or (header_dict (case headers payload of Some hs \<Rightarrow> hs | None \<Rightarrow> []))
                             ''To'' ''Unknown''
         \<and> si_subject item = get_or (header_dict (case headers payload of Some hs \<Rightarrow> hs | None \<Rightarrow> []))
                             ''Subject'' ''No Subject''
         \<and> si_date item = get_or (header_dict (case headers payload of Some hs \<Rightarrow> hs | None \<Rightarrow> []))
                             ''Date'' ''Unknown'')"
proof -
  obtain payload t sn where p: "mr_payload message_data = Some payload"
    "mr_threadId message_data = Some t" "mr_snippet message_data = Some sn"
    using assms
    by (cases "mr_payload message_data"; cases "mr_threadId message_data";
        cases "mr_snippet message_data") (simp_all add: message_info_def Let_def)
  with assms have "item =
     \<lparr>si_id = i, si_thread_id = t, si_snippet = sn,
      si_from = get_or (header_dict (case headers payload of Some hs \<Rightarrow> hs | None \<Rightarrow> []))
                  ''From'' ''Unknown'',
      si_to = get_or (header_dict (case headers payload of Some hs \<Rightarrow> hs | None \<Rightarrow> []))
                  ''To'' ''Unknown'',
      si_subject = get_or (header_dict (case headers payload of Some hs \<Rightarrow> hs | None \<Rightarrow> []))
                  ''Subject'' ''No Subject'',
      si_date = get_or (header_dict (case headers payload of Some hs \<Rightarrow> hs | None \<Rightarrow> []))
                  ''Date'' ''Unknown'',
      si_labels = (case mr_labelIds message_data of Some ls \<Rightarrow> ls | None \<Rightarrow> [])\<rparr>"
    unfolding message_info_def Let_def by simp
  with p show ?thesis by simp
qed

lemma fetch_info_Inr:
  assumes "fetch_info env msg w = (Inr info, w2)"
  shows "\<exists>i md. ref_id msg = Some i \<and> get_metadata env i = Inr md
           \<and> message_info i md = Inr info"
  using assms
  by (cases "ref_id msg"; cases "get_metadata env (the (ref_id msg))")
     (simp_all add: fetch_info_def Let_def)

lemma search_loop_items:
  "search_loop env n i refs acc w = (Inr items, w') \<Longrightarrow>
   \<exists>new. items = acc @ new
     \<and> map ref_id refs = map (\<lambda>it. Some (si_id it)) new
     \<and> (\<forall>it \<in> set new. \<exists>md. get_metadata env (si_id it) = Inr md
                                \<and> message_info (si_id it) md = Inr it)"
proof (induction refs arbitrary: i acc w)
  case Nil
  then show ?case by simp
next
  case (Cons msg rest)
  let ?w1 = "if (i + 1) mod 10 = 0
             then print (''Processing message '' @ str_nat (i + 1) @ ''/''
                         @ str_nat n @ ''...'') w
             else w"
  obtain r w2 where f: "fetch_info env msg ?w1 = (r, w2)"
    by (cases "fetch_info env msg ?w1")
  with Cons.prems obtain info where r: "r = Inr info"
    by (cases r) (simp_all add: Let_def)
  with Cons.prems f have loop: "search_loop env n (i + 1) rest (acc @ [info]) w2 = (Inr items, w')"
    by (simp add: Let_def)
  from fetch_info_Inr [OF f [unfolded r]] obtain j md where
    j: "ref_id msg = Some j" "get_metadata env j = Inr md" "message_info j md = Inr info"
    by blast
  then have id: "si_id info = j" using message_info_fields by blast
  from Cons.IH [OF loop] obtain new where
    n: "items = (acc @ [info]) @ new" "map ref_id rest = map (\<lambda>it. Some (si_id it)) new"
       "\<forall>it \<in> set new. \<exists>md. get_metadata env (si_id it) = Inr md
                                \<and> message_info (si_id it) md = Inr it"
    by blast
  show ?case
    using n j id by (intro exI [of _ "info # new"]) auto
qed

lemma search_Inr_nonempty:
  assumes "search env s query max_results w = (Inr items, s', w')" and "items \<noteq> []"
  shows "\<exists>refs w4 w5. list_messages env query max_results = Inr (Some refs)
           \<and> search_loop env (length refs) 0 refs [] w4 = (Inr items, w5)"
proof -
  obtain r s1 w1 where a: "searcher_authenticate env s w = (r, s1, w1)"
    by (cases "searcher_authenticate env s w")
  with assms obtain svc where r: "r = Inr svc"
    by (cases r) (simp_all add: search_def)
  obtain result where l: "list_messages env query max_results = Inr result"
    using assms a r by (cases "list_messages env query max_results") (simp_all add: search_def Let_def)
  obtain refs where refs: "result = Some refs" "refs \<noteq> []"
    using assms a r l by (cases result) (auto simp: search_def Let_def split: if_splits)
  let ?w4 = "print (''Found '' @ str_nat (length refs) @ '' messages'')
     (call (NetList query max_results)
        (print (''Maximum results: '' @ str_int max_results)
           (print (''Searching Gmail with query: '' @ quoted query) w1)))"
  obtain r5 w5 where sl: "search_loop env (length refs) 0 refs [] ?w4 = (r5, w5)"
    by (cases "search_loop env (length refs) 0 refs [] ?w4")
  have "r5 = Inr items"
    using assms a r l refs sl by (cases r5) (simp_all add: search_def Let_def)
  with l refs sl show ?thesis by blast
qed

subsection \<open>Claim about the search results\<close>

text \<open>
  Claim C10. When \<^verbatim>\<open>search\<close> returns a non-empty list, its items are the hits of the
  list answer, in order, and each item is built from the metadata response for its id:
  \<open>from\<close>, \<open>to\<close> and \<open>date\<close> are the header's value, or \<open>Unknown\<close> when the response
  has no such header, and \<open>subject\<close> is the header's value, or \<open>No Subject\<close>. For the
  same missing headers \<^verbatim>\<open>extract_message_metadata\<close> yields the empty string (for
  \<open>Date\<close>, in \<open>date_raw\<close>).
\<close>

theorem search_placeholders:
  assumes "search env s query max_results w = (Inr items, s', w')" and "items \<noteq> []"
  shows "(\<exists>refs. list_messages env query max_results = Inr (Some refs)
            \<and> map ref_id refs = map (\<lambda>item. Some (si_id item)) items)
     \<and> (\<forall>item \<in> set items. \<exists>message_data payload.
            get_metadata env (si_id item) = Inr message_data
          \<and> mr_payload message_data = Some payload
          \<and> si_from item =
               (case header_dict (case headers payload of Some hs \<Rightarrow> hs | None \<Rightarrow> []) ''From'' of
                  Some v \<Rightarrow> v | None \<Rightarrow> ''Unknown'')
          \<and> si_to item =
               (case header_dict (case headers payload of Some hs \<Rightarrow> hs | None \<Rightarrow> []) ''To'' of
                  Some v \<Rightarrow> v | None \<Rightarrow> ''Unknown'')
          \<and> si_subject item =
               (case header_dict (case headers payload of Some hs \<Rightarrow> hs | None \<Rightarrow> []) ''Subject'' of
                  Some v \<Rightarrow> v | None \<Rightarrow> ''No Subject'')
          \<and> si_date item =
               (case header_dict (case headers payload of Some hs \<Rightarrow> hs | None \<Rightarrow> []) ''Date'' of
                  Some v \<Rightarrow> v | None \<Rightarrow> ''Unknown''))
     \<and> (\<forall>msg md. extract_message_metadata env msg = Inr md \<longrightarrow>
          (header_dict (message_headers msg) ''From'' = None \<longrightarrow> md_from md = [])
        \<and> (header_dict (message_headers msg) ''To'' = None \<longrightarrow> md_to md = [])
        \<and> (header_dict (message_headers msg) ''Subject'' = None \<longrightarrow> md_subject md = [])
        \<and> (header_dict (message_headers msg) ''Date'' = None \<longrightarrow> md_date_raw md = []))"
proof -
  from search_Inr_nonempty [OF assms] obtain refs w4 w5 where
    l: "list_messages env query max_results = Inr (Some refs)"
    and sl: "search_loop env (length refs) 0 refs [] w4 = (Inr items, w5)"
    by blast
  from search_loop_items [OF sl] have
    ids: "map ref_id refs = map (\<lambda>it. Some (si_id it)) items"
    and each: "\<forall>it \<in> set items. \<exists>md. get_metadata env (si_id it) = Inr md
                                \<and> message_info (si_id it) md = Inr it"
    by auto
  have 1: "\<exists>refs. list_messages env query max_results = Inr (Some refs)
            \<and> map ref_id refs = map (\<lambda>item. Some (si_id item)) items"
    using l ids by blast
  have 2: "\<exists>message_data payload.
            get_metadata env (si_id item) = Inr message_data
          \<and> mr_payload message_data = Some payload
          \<and> si_from item =
               (case header_dict (case headers payload of Some hs \<Rightarrow> hs | None \<Rightarrow> []) ''From'' of
                  Some v \<Rightarrow> v | None \<Rightarrow> ''Unknown'')
          \<and> si_to item =
               (case header_dict (case headers payload of Some hs \<Rightarrow> hs | None \<Rightarrow> []) ''To'' of
                  Some v \<Rightarrow> v | None \<Rightarrow> ''Unknown'')
          \<and> si_subject item =
               (case header_dict (case headers payload of Some hs \<Rightarrow> hs | None \<Rightarrow> []) ''Subject'' of
                  Some v \<Rightarrow> v | None \<Rightarrow> ''No Subject'')
          \<and> si_date item =
               (case header_dict (case headers payload of Some hs \<Rightarrow> hs | None \<Rightarrow> []) ''Date'' of
                  Some v \<Rightarrow> v | None \<Rightarrow> ''Unknown'')"
    if "item \<in> set items" for item
  proof -
    from each that obtain md where md: "get_metadata env (si_id item) = Inr md"
      "message_info (si_id item) md = Inr item" by blast
    from message_info_fields [OF md(2)] md(1) show ?thesis
      unfolding get_or_def by blast
  qed
  have 3: "(header_dict (message_headers msg) ''From'' = None \<longrightarrow> md_from md = [])
        \<and> (header_dict (message_headers msg) ''To'' = None \<longrightarrow> md_to md = [])
        \<and> (header_dict (message_headers msg) ''Subject'' = None \<longrightarrow> md_subject md = [])
        \<and> (header_dict (message_headers msg) ''Date'' = None \<longrightarrow> md_date_raw md = [])"
    if "extract_message_metadata env msg = Inr md" for msg md
    using metadata_Inr_fields [OF that] by (simp add: get_or_def)
  from 1 2 3 show ?thesis by blast
qed

text \<open>The theorem of C10 on a hit whose metadata response has a \<open>From\<close> header only.\<close>

theorem search_placeholders_witness:
  "fst (search example_env ready_searcher ''is:inbox'' 100 empty_world) = Inr [example_item]
   \<and> si_from example_item = ''ann@example.com''
   \<and> si_to example_item = ''Unknown''
   \<and> si_subject example_item = ''No Subject''
   \<and> si_date example_item = ''Unknown''"
proof -
  have e: "fst (search example_env ready_searcher ''is:inbox'' 100 empty_world) = Inr [example_item]"
    by (simp add: search_def searcher_authenticate_def ready_searcher_def new_searcher_def
        ready_authenticator_def default_authenticator_def Let_def example_env_def
        fetch_info_def message_info_def header_dict_def get_or_def example_item_def)
  then obtain s' w' where
    s: "search example_env ready_searcher ''is:inbox'' 100 empty_world = (Inr [example_item], s', w')"
    by (cases "search example_env ready_searcher ''is:inbox'' 100 empty_world") simp
  have g: "get_metadata example_env ''m1'' =
       Inr \<lparr>mr_threadId = Some ''t1'', mr_snippet = Some ''hello'',
            mr_labelIds = Some [''INBOX''],
            mr_payload = Some (Part None None None (Some [(''From'', ''ann@example.com'')]) None)\<rparr>"
    by (simp add: example_env_def)
  have i: "si_id example_item = ''m1''" by (simp add: example_item_def)
  from search_placeholders [OF s] have
    "si_from example_item = ''ann@example.com'' \<and> si_to example_item = ''Unknown''
     \<and> si_subject example_item = ''No Subject'' \<and> si_date example_item = ''Unknown''"
    by (simp add: i g header_dict_def)
  with e show ?thesis by simp
qed

subsection \<open>What authentication and search may touch\<close>

lemma frame_refl [simp]: "frame tok w w"
  by (simp add: frame_def)

lemma frame_print [simp]: "frame tok w (print l w') = frame tok w w'"
  by (simp add: frame_def)

lemma frame_call [simp]: "\<not> is_get_full c \<Longrightarrow> frame tok w (call c w') = frame tok w w'"
  by (simp add: frame_def)

lemma frame_write_token [simp]: "frame tok w (write_file tok c w') = frame tok w w'"
  by (simp add: frame_def)

lemma frame_trans: "frame tok w w1 \<Longrightarrow> frame tok w1 w2 \<Longrightarrow> frame tok w w2"
  by (simp add: frame_def)

lemma then_save_frame:
  "frame (a_token_file a) w w1 \<Longrightarrow> frame (a_token_file a) w (snd (then_save env a (r, w1)))"
  by (cases r; cases "open_error env (a_token_file a)")
     (simp_all add: then_save_def save_token_def)

lemma obtain_creds_frame:
  "frame (a_token_file a) w (snd (obtain_creds env a loaded w))"
proof -
  have flow: "frame (a_token_file a) w (snd (then_save env a (run_oauth_flow env a (print l w1))))"
    if "frame (a_token_file a) w w1" for l w1
    using that then_save_frame [of a w "call (NetOAuthFlow (a_credentials_file a)) (print l w1)"]
    by (simp add: run_oauth_flow_def)
  show ?thesis
  proof (cases loaded)
    case None
    then show ?thesis using flow [of w] by (simp add: obtain_creds_def Let_def)
  next
    case (Some c)
    show ?thesis
    proof (cases "valid c")
      case True
      with Some show ?thesis by (simp add: obtain_creds_def Let_def)
    next
      case False
      show ?thesis
      proof (cases "expired c \<and> truthy (refresh_token c)")
        case no: False
        with Some False show ?thesis using flow [of w] by (auto simp: obtain_creds_def Let_def)
      next
        case yes: True
        let ?w1 = "call (NetRefresh c) (print ''Refreshing expired token...'' w)"
        have f1: "frame (a_token_file a) w ?w1" by simp
        show ?thesis
        proof (cases "refresh env c")
          case (Inr c')
          with Some False yes show ?thesis
            using then_save_frame [OF f1, of env "Inr c'"]
            by (simp add: obtain_creds_def Let_def)
        next
          case (Inl e)
          with Some False yes show ?thesis
            using flow [OF f1]
            by (cases e) (simp_all add: obtain_creds_def Let_def)
        qed
      qed
    qed
  qed
qed

lemma authenticate_frame:
  assumes "authenticate env a w = (r, a', w')"
  shows "frame (a_token_file a) w w' \<and> a_token_file a' = a_token_file a
         \<and> a_credentials_file a' = a_credentials_file a"
proof (cases "files w (a_credentials_file a) = None")
  case True
  with assms show ?thesis by (simp add: authenticate_def)
next
  case False
  show ?thesis
  proof (cases "load_token a w")
    case (Inl e)
    with assms False show ?thesis by (simp add: authenticate_def)
  next
    case (Inr loaded)
    obtain rc w1 where oc: "obtain_creds env a loaded w = (rc, w1)"
      by (cases "obtain_creds env a loaded w")
    have f1: "frame (a_token_file a) w w1"
      using obtain_creds_frame [of a w env loaded] oc by simp
    show ?thesis
    proof (cases rc)
      case (Inl e)
      with assms False Inr oc f1 show ?thesis by (auto simp: authenticate_def)
    next
      case c: (Inr c)
      with assms False Inr oc f1 show ?thesis
        by (cases "build env c") (auto simp: authenticate_def Let_def)
    qed
  qed
qed

lemma searcher_authenticate_frame:
  assumes "searcher_authenticate env s w = (r, s1, w1)"
  shows "frame (a_token_file (s_auth s)) w w1"
proof (cases "s_service s")
  case (Some svc)
  with assms show ?thesis by (simp add: searcher_authenticate_def)
next
  case None
  obtain ra a1 wa where a: "authenticate env (s_auth s) w = (ra, a1, wa)"
    by (cases "authenticate env (s_auth s) w")
  from authenticate_frame [OF a] have "frame (a_token_file (s_auth s)) w wa" by simp
  with assms None a show ?thesis
    by (cases ra) (auto simp: searcher_authenticate_def)
qed

lemma fetch_info_frame:
  "frame tok w w1 \<Longrightarrow> frame tok w (snd (fetch_info env msg w1))"
  by (cases "ref_id msg"; cases "get_metadata env (the (ref_id msg))")
     (simp_all add: fetch_info_def Let_def)

lemma search_loop_frame:
  "frame tok w w1 \<Longrightarrow> frame tok w (snd (search_loop env n i refs acc w1))"
proof (induction refs arbitrary: i acc w1)
  case Nil
  then show ?case by simp
next
  case (Cons msg rest)
  let ?w1 = "if (i + 1) mod 10 = 0
             then print (''Processing message '' @ str_nat (i + 1) @ ''/''
                         @ str_nat n @ ''...'') w1
             else w1"
  have f1: "frame tok w ?w1" using Cons.prems by simp
  obtain r w2 where f: "fetch_info env msg ?w1 = (r, w2)"
    by (cases "fetch_info env msg ?w1")
  have f2: "frame tok w w2" using fetch_info_frame [OF f1, of env msg] f by simp
  show ?case
  proof (cases r)
    case (Inl e)
    with f f2 show ?thesis by (simp add: Let_def)
  next
    case (Inr info)
    with f Cons.IH [OF f2, of "i + 1" "acc @ [info]"] show ?thesis by (simp add: Let_def)
  qed
qed

lemma search_frame:
  assumes "search env s query max_results w = (r, s1, w1)"
  shows "frame (a_token_file (s_auth s)) w w1"
proof -
  let ?tok = "a_token_file (s_auth s)"
  obtain ra sa wa where a: "searcher_authenticate env s w = (ra, sa, wa)"
    by (cases "searcher_authenticate env s w")
  have fa: "frame ?tok w wa" using searcher_authenticate_frame [OF a] .
  show ?thesis
  proof (cases ra)
    case (Inl e)
    with assms a fa show ?thesis by (simp add: search_def)
  next
    case (Inr svc)
    let ?w3 = "call (NetList query max_results)
        (print (''Maximum results: '' @ str_int max_results)
           (print (''Searching Gmail with query: '' @ quoted query) wa))"
    have f3: "frame ?tok w ?w3" using fa by simp
    show ?thesis
    proof (cases "list_messages env query max_results")
      case le: (Inl e)
      with assms a Inr f3 show ?thesis by (auto simp: search_def Let_def)
    next
      case lr: (Inr result)
      let ?ms = "case result of Some ms \<Rightarrow> ms | None \<Rightarrow> []"
      show ?thesis
      proof (cases "?ms = []")
        case True
        with assms a Inr lr f3 show ?thesis by (auto simp: search_def Let_def)
      next
        case False
        let ?w4 = "print (''Found '' @ str_nat (length ?ms) @ '' messages'') ?w3"
        obtain r5 w5 where sl: "search_loop env (length ?ms) 0 ?ms [] ?w4 = (r5, w5)"
          by (cases "search_loop env (length ?ms) 0 ?ms [] ?w4")
        have "frame ?tok w ?w4" using f3 by simp
        from search_loop_frame [OF this, of env "length ?ms" 0 ?ms "[]"] sl
        have f5: "frame ?tok w w5" by simp
        from assms a Inr lr False sl have "w1 = print (''Error during search: '' @ str_error (projl r5)) w5
           \<or> w1 = print (''Search complete. Retrieved '' @ str_nat (length (projr r5)) @ '' messages.'') w5"
          by (cases r5) (auto simp: search_def Let_def)
        with f5 show ?thesis by auto
      qed
    qed
  qed
qed

lemma export_zero_hits:
  assumes "search env (new_searcher (r_auth r)) q n
             (print (''Starting export for query: '' @ quoted q) w) = (Inr [], s1, w1)"
  shows "export_search_results env r q n prefix w =
     (Inr \<lparr>sm_search_query = None, sm_message_count = 0,
           sm_files_created = [], sm_timestamp = None\<rparr>,
      r\<lparr>r_auth := s_auth s1\<rparr>, print ''No messages found to export'' w1)"
  using assms by (simp add: export_search_results_def Let_def)

lemma export_hits:
  assumes "search env (new_searcher (r_auth r)) q n
             (print (''Starting export for query: '' @ quoted q) w) = (Inr hits, s1, w1)"
    and "hits \<noteq> []"
  shows "fst (export_search_results env r q n prefix w) =
     (case fst (get_multiple_messages env (r\<lparr>r_auth := s_auth s1\<rparr>) (map si_id hits) True w1) of
        Inl e \<Rightarrow> Inl e
      | Inr full_messages \<Rightarrow>
          Inr \<lparr>sm_search_query = Some q, sm_message_count = length full_messages,
               sm_files_created = [prefix @ ''_'' @ now env @ ''.json'',
                                   prefix @ ''_'' @ now env @ ''.csv'',
                                   prefix @ ''_'' @ now env @ ''.txt''],
               sm_timestamp = Some (now env)\<rparr>)"
  using assms
  by (simp add: export_search_results_def Let_def split: prod.splits sum.splits)

lemma get_full_message_ready:
  assumes "r_service r = Some svc"
  shows "\<exists>m w'. get_full_message env r i w = (Inr m, r, w')"
  using assms
  by (cases "get_full env i") (simp_all add: get_full_message_def retriever_authenticate_def Let_def)

lemma retrieve_loop_ready:
  assumes "r_service r = Some svc"
  shows "\<exists>msgs w'. retrieve_loop env sp n i ids acc r w = (Inr msgs, r, w')"
proof (induction ids arbitrary: i acc w)
  case Nil
  then show ?case by simp
next
  case (Cons msg_id rest)
  let ?w1 = "if sp \<and> (i + 1) mod 10 = 0
             then print (''Retrieved '' @ str_nat (i + 1) @ ''/'' @ str_nat n
                         @ '' messages...'') w
             else w"
  from get_full_message_ready [OF assms, of env msg_id ?w1] obtain m w2 where
    g: "get_full_message env r msg_id ?w1 = (Inr m, r, w2)" by blast
  then show ?case using Cons.IH by (simp add: Let_def)
qed

lemma get_multiple_messages_ready:
  assumes "r_service r = Some svc"
  shows "\<exists>msgs w'. get_multiple_messages env r ids sp w = (Inr msgs, r, w')"
proof -
  let ?w2 = "if sp then print (''Retrieving '' @ str_nat (length ids) @ '' messages...'') w else w"
  from retrieve_loop_ready [OF assms, of env sp "length ids" 0 ids "[]" ?w2]
  obtain msgs w3 where "retrieve_loop env sp (length ids) 0 ids [] r ?w2 = (Inr msgs, r, w3)"
    by blast
  with assms show ?thesis
    by (simp add: get_multiple_messages_def retriever_authenticate_def Let_def)
qed

subsection \<open>Claims about the export workflow\<close>

lemma search_example_zero:
  "fst (search example_env (new_searcher ready_authenticator) ''from:nobody'' 100 w) = Inr []"
  by (simp add: search_def searcher_authenticate_def new_searcher_def
      ready_authenticator_def default_authenticator_def Let_def example_env_def)

lemma search_example_hit:
  "fst (search locked_env (new_searcher ready_authenticator) ''is:inbox'' 100 w)
     = Inr [example_item]"
  by (simp add: search_def locked_env_def searcher_authenticate_def new_searcher_def
      ready_authenticator_def default_authenticator_def Let_def example_env_def
      fetch_info_def message_info_def header_dict_def get_or_def example_item_def)

lemma locked_export_files:
  "files (snd (snd (export_search_results locked_env ready_retriever ''is:inbox'' 100
                      ''gmail_export'' empty_world))) = Map.empty"
  by (simp add: export_search_results_def search_def searcher_authenticate_def new_searcher_def
      ready_retriever_def ready_authenticator_def default_authenticator_def Let_def
      locked_env_def example_env_def fetch_info_def message_info_def header_dict_def get_or_def
      get_multiple_messages_def retriever_authenticate_def get_full_message_def
      nonempty_message_def nested_plain_message_def message_of_def
      save_messages_json_def save_messages_csv_def save_messages_text_def empty_world_def)

text \<open>
  Claim C7. When the search inside \<^verbatim>\<open>export_search_results\<close> returns no hit, the
  export short-circuits: it returns a summary with \<open>message_count\<close> 0 and an empty
  \<open>files_created\<close> list, and once the search has returned it only prints one line, so
  it retrieves no message and writes no file: the files and the calls made are those the
  search left. Over the whole call no full message is requested and no file other than
  the token store, which belongs to the authentication inside the search, differs from
  before.
\<close>

theorem export_search_results_zero_hits:
  assumes "search env (new_searcher (r_auth r)) q n
             (print (''Starting export for query: '' @ quoted q) w) = (Inr [], s1, w1)"
  shows "\<exists>w'. export_search_results env r q n prefix w =
            (Inr \<lparr>sm_search_query = None, sm_message_count = 0,
                  sm_files_created = [], sm_timestamp = None\<rparr>,
             r\<lparr>r_auth := s_auth s1\<rparr>, w')
     \<and> files w' = files w1
     \<and> network w' = network w1
     \<and> printed w' = printed w1 @ [''No messages found to export'']
     \<and> (\<forall>f. f \<noteq> a_token_file (r_auth r) \<longrightarrow> files w' f = files w f)
     \<and> filter is_get_full (network w') = filter is_get_full (network w)"
proof -
  let ?w' = "print ''No messages found to export'' w1"
  have e: "export_search_results env r q n prefix w =
            (Inr \<lparr>sm_search_query = None, sm_message_count = 0,
                  sm_files_created = [], sm_timestamp = None\<rparr>,
             r\<lparr>r_auth := s_auth s1\<rparr>, ?w')"
    using assms by (rule export_zero_hits)
  have "frame (a_token_file (s_auth (new_searcher (r_auth r))))
          (print (''Starting export for query: '' @ quoted q) w) w1"
    using assms by (rule search_frame)
  then have "(\<forall>f. f \<noteq> a_token_file (r_auth r) \<longrightarrow> files ?w' f = files w f)
     \<and> filter is_get_full (network ?w') = filter is_get_full (network w)"
    by (simp add: frame_def new_searcher_def)
  with e show ?thesis by (intro exI [of _ ?w']) simp
qed

text \<open>The theorem of C7 for a retriever that holds a service, on a query without hits.\<close>

theorem export_search_results_zero_hits_witness:
  "\<exists>r' w'. export_search_results example_env ready_retriever ''from:nobody'' 100
              ''gmail_export'' empty_world =
            (Inr \<lparr>sm_search_query = None, sm_message_count = 0,
                  sm_files_created = [], sm_timestamp = None\<rparr>, r', w')
     \<and> files w' ''gmail_export_20230102_150405.json'' = None
     \<and> files w' ''gmail_export_20230102_150405.csv'' = None
     \<and> files w' ''gmail_export_20230102_150405.txt'' = None
     \<and> filter is_get_full (network w') = []"
proof -
  let ?w0 = "print (''Starting export for query: '' @ quoted ''from:nobody'') empty_world"
  obtain s1 w1 where
    s: "search example_env (new_searcher (r_auth ready_retriever)) ''from:nobody'' 100 ?w0
          = (Inr [], s1, w1)"
    using search_example_zero [of ?w0]
    by (cases "search example_env (new_searcher (r_auth ready_retriever)) ''from:nobody'' 100 ?w0")
       (simp add: ready_retriever_def)
  from export_search_results_zero_hits [OF s, of "''gmail_export''"] show ?thesis
    by (auto simp: ready_retriever_def ready_authenticator_def default_authenticator_def
        empty_world_def)
qed

text \<open>
  Claim C2. On a query without hits the summary that \<^verbatim>\<open>export_search_results\<close> returns
  has the keys \<open>message_count\<close> and \<open>files_created\<close> only: \<open>search_query\<close> and
  \<open>timestamp\<close> are absent.
\<close>

theorem export_search_results_missing_keys:
  "fst (export_search_results example_env ready_retriever ''from:nobody'' 100
          ''gmail_export'' empty_world)
     = Inr \<lparr>sm_search_query = None, sm_message_count = 0,
            sm_files_created = [], sm_timestamp = None\<rparr>"
proof -
  let ?w0 = "print (''Starting export for query: '' @ quoted ''from:nobody'') empty_world"
  obtain s1 w1 where
    s: "search example_env (new_searcher (r_auth ready_retriever)) ''from:nobody'' 100 ?w0
          = (Inr [], s1, w1)"
    using search_example_zero [of ?w0]
    by (cases "search example_env (new_searcher (r_auth ready_retriever)) ''from:nobody'' 100 ?w0")
       (simp add: ready_retriever_def)
  from export_zero_hits [OF s] show ?thesis by simp
qed

text \<open>
  Claim C9. When the search returns at least one hit, every summary the export returns
  lists exactly the three paths \<open>prefix_timestamp.json\<close>, \<open>.csv\<close> and \<open>.txt\<close>, in
  that order, with the one timestamp that the summary carries; this holds for every
  environment, so also when opening any of the files fails. When the retriever holds a
  service the export does return a summary.
\<close>

theorem export_search_results_three_files:
  assumes "search env (new_searcher (r_auth r)) q n
             (print (''Starting export for query: '' @ quoted q) w) = (Inr hits, s1, w1)"
    and "hits \<noteq> []"
  shows "(\<forall>sm r' w'. export_search_results env r q n prefix w = (Inr sm, r', w') \<longrightarrow>
            sm_files_created sm = [prefix @ ''_'' @ now env @ ''.json'',
                                   prefix @ ''_'' @ now env @ ''.csv'',
                                   prefix @ ''_'' @ now env @ ''.txt'']
          \<and> sm_timestamp sm = Some (now env))
     \<and> (r_service r \<noteq> None \<longrightarrow>
          (\<exists>sm r' w'. export_search_results env r q n prefix w = (Inr sm, r', w')))"
proof -
  let ?g = "get_multiple_messages env (r\<lparr>r_auth := s_auth s1\<rparr>) (map si_id hits) True w1"
  note eh = export_hits [OF assms, of prefix]
  have 1: "sm_files_created sm = [prefix @ ''_'' @ now env @ ''.json'',
                                   prefix @ ''_'' @ now env @ ''.csv'',
                                   prefix @ ''_'' @ now env @ ''.txt'']
          \<and> sm_timestamp sm = Some (now env)"
    if "export_search_results env r q n prefix w = (Inr sm, r', w')" for sm r' w'
    using eh that by (cases "fst ?g") auto
  have 2: "\<exists>sm r' w'. export_search_results env r q n prefix w = (Inr sm, r', w')"
    if "r_service r \<noteq> None"
  proof -
    from that obtain svc where "r_service (r\<lparr>r_auth := s_auth s1\<rparr>) = Some svc" by auto
    from get_multiple_messages_ready [OF this, of env "map si_id hits" True w1]
    obtain msgs where "fst ?g = Inr msgs" by auto
    with eh show ?thesis
      by (cases "export_search_results env r q n prefix w") auto
  qed
  from 1 2 show ?thesis by blast
qed

text \<open>
  The theorem of C9 in an environment where no file can be opened: the three paths are
  listed and no file exists afterwards.
\<close>

theorem export_search_results_three_files_witness:
  "\<exists>sm r' w'. export_search_results locked_env ready_retriever ''is:inbox'' 100
                 ''gmail_export'' empty_world = (Inr sm, r', w')
     \<and> sm_files_created sm = [''gmail_export_20230102_150405.json'',
                              ''gmail_export_20230102_150405.csv'',
                              ''gmail_export_20230102_150405.txt'']
     \<and> open_error locked_env ''gmail_export_20230102_150405.json'' \<noteq> None
     \<and> open_error locked_env ''gmail_export_20230102_150405.csv'' \<noteq> None
     \<and> open_error locked_env ''gmail_export_20230102_150405.txt'' \<noteq> None
     \<and> files w' = Map.empty"
proof -
  let ?w0 = "print (''Starting export for query: '' @ quoted ''is:inbox'') empty_world"
  obtain s1 w1 where
    s: "search locked_env (new_searcher (r_auth ready_retriever)) ''is:inbox'' 100 ?w0
          = (Inr [example_item], s1, w1)"
    using search_example_hit [of ?w0]
    by (cases "search locked_env (new_searcher (r_auth ready_retriever)) ''is:inbox'' 100 ?w0")
       (simp add: ready_retriever_def)
  have n: "now locked_env = ''20230102_150405''"
    by (simp add: locked_env_def example_env_def)
  have r: "r_service ready_retriever \<noteq> None" by (simp add: ready_retriever_def)
  from export_search_results_three_files [OF s, of "''gmail_export''"] r n
    locked_export_files show ?thesis
    by (auto simp: locked_env_def)
qed

end
